theory Spec2Isabelle
  imports Complex_Main "HOL-Library.Multiset" "HOL-Library.Signed_Division"
begin

section \<open>Card model (game/card.go)\<close>

text \<open>
  The Go type \<open>Suit\<close> is an \<open>int\<close> with the four constants \<open>Spades = 0\<close>, \<open>Hearts\<close>,
  \<open>Diamonds\<close>, \<open>Clubs\<close>; no code of the repository builds any other value, so it is a
  datatype here. The zero value of a \<open>Suit\<close> field is \<open>Spades\<close>.
\<close>

datatype Suit = Spades | Hearts | Diamonds | Clubs

fun Suit_String :: "Suit \<Rightarrow> string" where
  "Suit_String Spades = ''spades''"
| "Suit_String Hearts = ''hearts''"
| "Suit_String Diamonds = ''diamonds''"
| "Suit_String Clubs = ''clubs''"

definition AllSuits :: "Suit list" where
  "AllSuits = [Spades, Hearts, Diamonds, Clubs]"

fun OffSuit :: "Suit \<Rightarrow> Suit" where
  "OffSuit Spades = Clubs"
| "OffSuit Clubs = Spades"
| "OffSuit Hearts = Diamonds"
| "OffSuit Diamonds = Hearts"

text \<open>\<open>Rank\<close> is a Go \<open>int\<close> (2 to 14, where 11 = J, 12 = Q, 13 = K, 14 = A).\<close>

type_synonym Rank = int

abbreviation (input) Two :: Rank where "Two \<equiv> 2"
abbreviation (input) Three :: Rank where "Three \<equiv> 3"
abbreviation (input) Four :: Rank where "Four \<equiv> 4"
abbreviation (input) Five :: Rank where "Five \<equiv> 5"
abbreviation (input) Six :: Rank where "Six \<equiv> 6"
abbreviation (input) Seven :: Rank where "Seven \<equiv> 7"
abbreviation (input) Eight :: Rank where "Eight \<equiv> 8"
abbreviation (input) Nine :: Rank where "Nine \<equiv> 9"
abbreviation (input) Ten :: Rank where "Ten \<equiv> 10"
abbreviation (input) Jack :: Rank where "Jack \<equiv> 11"
abbreviation (input) Queen :: Rank where "Queen \<equiv> 12"
abbreviation (input) King :: Rank where "King \<equiv> 13"
abbreviation (input) Ace :: Rank where "Ace \<equiv> 14"

text \<open>Decimal rendering, as \<open>fmt.Sprintf("%d", r)\<close> does it.\<close>

definition digit_char :: "nat \<Rightarrow> char" where
  "digit_char d = char_of (48 + d)"

function showNat :: "nat \<Rightarrow> string" where
  "showNat n = (if n < 10 then [digit_char n] else showNat (n div 10) @ [digit_char (n mod 10)])"
  by pat_completeness auto
termination
  by (relation "measure id") auto

declare showNat.simps [simp del]

definition showInt :: "int \<Rightarrow> string" where
  "showInt i = (if i < 0 then CHR ''-'' # showNat (nat (- i)) else showNat (nat i))"

definition Rank_String :: "Rank \<Rightarrow> string" where
  "Rank_String r =
     (if r = Jack then ''jack''
      else if r = Queen then ''queen''
      else if r = King then ''king''
      else if r = Ace then ''ace''
      else showInt r)"

definition AllRanks :: "Rank list" where
  "AllRanks = [Two, Three, Four, Five, Six, Seven, Eight, Nine, Ten, Jack, Queen, King, Ace]"

definition GamePoints :: "Rank \<Rightarrow> int" where
  "GamePoints r =
     (if r = Ace then 4
      else if r = King then 3
      else if r = Queen then 2
      else if r = Jack then 1
      else if r = Ten then 10
      else 0)"

record Card =
  ID :: string
  Suit :: Suit
  Rank :: Rank

definition NewCard :: "Suit \<Rightarrow> Rank \<Rightarrow> Card" where
  "NewCard suit rank =
     \<lparr>ID = Rank_String rank @ ''_'' @ Suit_String suit, Suit = suit, Rank = rank\<rparr>"

definition IsTrump :: "Card \<Rightarrow> Suit \<Rightarrow> bool" where
  "IsTrump c trump =
     (if Suit c = trump then True
      else if Rank c = Jack \<and> Suit c = OffSuit trump then True
      else False)"

definition IsOffJack :: "Card \<Rightarrow> Suit \<Rightarrow> bool" where
  "IsOffJack c trump = (Rank c = Jack \<and> Suit c = OffSuit trump)"

text \<open>
  \<open>TrumpRank\<close> returns a \<open>float64\<close>: 10.5 for the off-jack, \<open>float64(c.Rank)\<close> otherwise.
  Both are exact in binary floating point for every rank of \<open>AllRanks\<close> (any integer of
  magnitude below \<open>2^53\<close>), and \<open>>\<close> on such values is the order of the reals, so the
  key is a real number here.
\<close>

definition TrumpRank :: "Card \<Rightarrow> Suit \<Rightarrow> real" where
  "TrumpRank c trump = (if IsOffJack c trump then 21 / 2 else real_of_int (Rank c))"

definition Beats :: "Card \<Rightarrow> Card \<Rightarrow> Suit \<Rightarrow> Suit \<Rightarrow> bool" where
  "Beats c other trump leadSuit =
     (let cIsTrump = IsTrump c trump;
          otherIsTrump = IsTrump other trump
      in if cIsTrump \<and> \<not> otherIsTrump then True
         else if \<not> cIsTrump \<and> otherIsTrump then False
         else if cIsTrump \<and> otherIsTrump then TrumpRank c trump > TrumpRank other trump
         else if Suit c = Suit other then Rank c > Rank other
         else if Suit c = leadSuit then True
         else False)"

text \<open>
  \<open>NewDeck\<close>: the nested loop over \<open>AllSuits()\<close> and \<open>AllRanks()\<close>, appending
  \<open>NewCard(suit, rank)\<close>.
\<close>

definition NewDeck :: "Card list" where
  "NewDeck = concat (map (\<lambda>suit. map (\<lambda>rank. NewCard suit rank) AllRanks) AllSuits)"

text \<open>
  \<open>Deal(n)\<close> clamps \<open>n\<close> to the cards left, returns a copy of the first \<open>n\<close> cards and
  keeps the rest. Every caller passes a positive count (6, \<open>6 - len(hand)\<close> under the
  guard \<open>len(hand) < 6\<close>, or \<open>discardCount > 0\<close>), so the count is a \<open>nat\<close>.
  The result is (dealt cards, remaining deck).
\<close>

definition Deal :: "nat \<Rightarrow> Card list \<Rightarrow> Card list \<times> Card list" where
  "Deal n cards = (let n' = (if n > length cards then length cards else n)
                   in (take n' cards, drop n' cards))"

section \<open>Game record (game/state.go)\<close>

datatype Phase =
  PhaseLobby | PhaseBidding | PhaseKitty | PhaseDiscard | PhasePlaying | PhaseScoring
| PhaseFinished

record Player =
  Name :: string
  SeatIndex :: int
  Hand :: "Card list"
  SessionToken :: string
  Connected :: bool

record Team =
  PlayerIndices :: "int list"
  Score :: int
  GamesWon :: int

record Bid =
  b_PlayerIndex :: int
  Amount :: int

record TrickCard =
  tc_Card :: Card
  tc_PlayerIndex :: int

record Trick =
  Cards :: "TrickCard list"
  Leader :: int
  LeadSuit :: Suit
  Winner :: int

record CompletedTrick =
  ct_Cards :: "TrickCard list"
  ct_Winner :: int

text \<open>
  The fixed-size arrays of the record (\<open>[4]*Player\<close>, \<open>[2]*Team\<close>, \<open>[4]bool\<close>,
  \<open>[4][]string\<close>, \<open>[2][]Card\<close>) are functions on the index; the code reads and
  writes them at indices inside the array only, and every access with a computed index
  carries its bounds check here: outside the array Go panics. A pointer that can be nil
  (\<open>*Player\<close>, \<open>*Deck\<close>, \<open>*Trick\<close>, \<open>*Suit\<close>) is an option, and so is the slice
  \<open>PendingDiscards[i]\<close>, which the code tests against nil. The two \<open>*Team\<close> pointers
  are set by \<open>NewGameState\<close> and never cleared, so a team is held directly. For the other
  slices nil and empty behave alike (\<open>len\<close>, \<open>range\<close>, \<open>append\<close>); they are lists.
\<close>

record GameState =
  Phase :: Phase
  Players :: "int \<Rightarrow> Player option"
  Teams :: "int \<Rightarrow> Team"
  Deck :: "Card list option"
  CurrentTrick :: "Trick option"
  LastTrick :: "Trick option"
  Trump :: "Suit option"
  Bids :: "Bid list"
  Dealer :: int
  CurrentPlayer :: int
  TricksPlayed :: int
  BidWinner :: int
  WinningBid :: int
  TargetScore :: int
  House :: int
  Kitty :: "Card list"
  DiscardComplete :: "int \<Rightarrow> bool"
  PendingDiscards :: "int \<Rightarrow> string list option"
  CompletedTricks :: "CompletedTrick list"
  CardsWon :: "int \<Rightarrow> Card list"
  TrumpBroken :: bool

definition NewGameState :: "int \<Rightarrow> GameState" where
  "NewGameState targetScore =
     \<lparr>Phase = PhaseLobby,
      Players = (\<lambda>_. None),
      Teams = (\<lambda>i. if i = 0 then \<lparr>PlayerIndices = [0, 2], Score = 0, GamesWon = 0\<rparr>
                    else \<lparr>PlayerIndices = [1, 3], Score = 0, GamesWon = 0\<rparr>),
      Deck = None,
      CurrentTrick = None,
      LastTrick = None,
      Trump = None,
      Bids = [],
      Dealer = 0,
      CurrentPlayer = 0,
      TricksPlayed = 0,
      BidWinner = 0,
      WinningBid = 0,
      TargetScore = targetScore,
      House = - 1,
      Kitty = [],
      DiscardComplete = (\<lambda>_. False),
      PendingDiscards = (\<lambda>_. None),
      CompletedTricks = [],
      CardsWon = (\<lambda>_. []),
      TrumpBroken = False\<rparr>"

definition GetTeamForPlayer :: "int \<Rightarrow> int" where
  "GetTeamForPlayer playerIndex = (if playerIndex = 0 \<or> playerIndex = 2 then 0 else 1)"

definition AllPlayersSeated :: "GameState \<Rightarrow> bool" where
  "AllPlayersSeated g = list_all (\<lambda>i. Players g i \<noteq> None) [0, 1, 2, 3]"

text \<open>Go's \<open>%\<close> truncates towards zero: \<open>smod\<close>.\<close>

definition NextPlayer :: "int \<Rightarrow> int" where
  "NextPlayer current = (current + 1) smod 4"

definition PlayerAfterDealer :: "GameState \<Rightarrow> int" where
  "PlayerAfterDealer g = NextPlayer (Dealer g)"

definition inSeats :: "int \<Rightarrow> bool" where
  "inSeats i = (0 \<le> i \<and> i < 4)"

section \<open>Action engine (game/engine.go)\<close>

datatype ActionType =
  ActionJoinSeat | ActionLeaveSeat | ActionChangeName | ActionKickPlayer
| ActionTransferHouse | ActionStartGame | ActionPlaceBid | ActionSelectTrump
| ActionTakeKitty | ActionDiscard | ActionDiscardDraw | ActionPlayCard | ActionResetGame
| ActionOther string

text \<open>\<open>CardIDs\<close> is a slice that may be nil (the message carried none): an option.\<close>

record Action =
  Type :: ActionType
  PlayerIndex :: int
  PlayerName :: string
  BidAmount :: int
  CardID :: string
  TrumpSuit :: string
  CardIDs :: "string list option"
  TargetSeat :: int

text \<open>The sentinel errors, and \<open>ErrMsg\<close> for the ones built in place by \<open>errors.New\<close>
  and \<open>fmt.Errorf\<close>.\<close>

datatype error =
  ErrNotYourTurn | ErrInvalidAction | ErrSeatTaken | ErrSeatEmpty | ErrNotEnoughPlayers
| ErrInvalidBid | ErrCardNotInHand | ErrCardNotInKitty | ErrMustFollowSuit
| ErrInvalidTrump | ErrMustDiscardToSix | ErrRejoinFailed | ErrMsg string

text \<open>
  The engine works on the record through a pointer: it mutates the record in place and
  returns \<open>(state, nil)\<close> or \<open>(nil, err)\<close>. The callers keep their own pointer to the
  record, so what matters after a call is the record as the call left it, on both paths:
  \<open>Ok s\<close> is a nil error with the record \<open>s\<close>, \<open>Err e s\<close> is the error \<open>e\<close> with the
  record \<open>s\<close> as it stands when the function returns, \<open>Panic\<close> is a runtime panic (nil
  dereference, index out of range).
\<close>

datatype result = Ok GameState | Err error GameState | Panic

text \<open>
  What the engine draws from outside the repository: the permutation that
  \<open>rng.Shuffle\<close> applies to the fresh deck, and the token \<open>GenerateSessionToken\<close>
  reads from \<open>crypto/rand\<close>.
\<close>

record Rand =
  Shuffle :: "Card list \<Rightarrow> Card list"
  GenerateSessionToken :: string

definition idsOf :: "string list option \<Rightarrow> string list" where
  "idsOf ids = (case ids of None \<Rightarrow> [] | Some xs \<Rightarrow> xs)"

text \<open>The search loops \<open>for i, c := range cards { if c.ID == cardID { ... break } }\<close>:
  the index of the first card with that id.\<close>

fun findCard :: "string \<Rightarrow> Card list \<Rightarrow> nat option" where
  "findCard cardID [] = None"
| "findCard cardID (c # cs) =
     (if ID c = cardID then Some 0
      else (case findCard cardID cs of None \<Rightarrow> None | Some i \<Rightarrow> Some (Suc i)))"

text \<open>\<open>append(xs[:i], xs[i+1:]...)\<close>\<close>

definition removeAt :: "nat \<Rightarrow> 'a list \<Rightarrow> 'a list" where
  "removeAt i xs = take i xs @ drop (Suc i) xs"

definition applyJoinSeat :: "Rand \<Rightarrow> GameState \<Rightarrow> Action \<Rightarrow> result" where
  "applyJoinSeat rnd state action =
     (if Phase state \<noteq> PhaseLobby then Err ErrInvalidAction state
      else if PlayerIndex action < 0 \<or> PlayerIndex action > 3
        then Err (ErrMsg ''invalid seat index'') state
      else if Players state (PlayerIndex action) \<noteq> None then Err ErrSeatTaken state
      else
        let isFirstPlayer = (House state = - 1);
            state1 = state\<lparr>Players := (Players state)(PlayerIndex action \<mapsto>
                       \<lparr>Name = PlayerName action, SeatIndex = PlayerIndex action, Hand = [],
                        SessionToken = GenerateSessionToken rnd, Connected = True\<rparr>)\<rparr>
        in Ok (if isFirstPlayer
               then state1\<lparr>House := PlayerIndex action, Dealer := PlayerIndex action\<rparr>
               else state1))"

definition applyLeaveSeat :: "GameState \<Rightarrow> Action \<Rightarrow> result" where
  "applyLeaveSeat state action =
     (if PlayerIndex action < 0 \<or> PlayerIndex action > 3
        then Err (ErrMsg ''invalid seat index'') state
      else case Players state (PlayerIndex action) of
        None \<Rightarrow> Err ErrSeatEmpty state
      | Some p \<Rightarrow>
          if Phase state = PhaseLobby
          then Ok (state\<lparr>Players := (Players state)(PlayerIndex action := None)\<rparr>)
          else Ok (state\<lparr>Players := (Players state)(PlayerIndex action \<mapsto>
                     p\<lparr>Connected := False, Name := []\<rparr>)\<rparr>))"

text \<open>
  The deal loop \<open>for i := 0; i < 4; i++ { state.Players[i].Hand = state.Deck.Deal(6) }\<close>
  of \<open>applyStartGame\<close> and \<open>StartNewHand\<close>, over the seats still to deal to;
  \<open>None\<close> is the nil dereference of an empty seat.
\<close>

fun dealHands :: "int list \<Rightarrow> GameState \<Rightarrow> GameState option" where
  "dealHands [] state = Some state"
| "dealHands (i # seats) state =
     (case (Players state i, Deck state) of
        (Some p, Some d) \<Rightarrow>
          (let (dealt, rest) = Deal 6 d
           in dealHands seats
                (state\<lparr>Players := (Players state)(i \<mapsto> p\<lparr>Hand := dealt\<rparr>),
                       Deck := Some rest\<rparr>))
      | _ \<Rightarrow> None)"

definition dealKitty :: "GameState \<Rightarrow> GameState option" where
  "dealKitty state =
     (case Deck state of
        None \<Rightarrow> None
      | Some d \<Rightarrow> (let (dealt, rest) = Deal 6 d
                   in Some (state\<lparr>Kitty := dealt, Deck := Some rest\<rparr>)))"

definition applyStartGame :: "Rand \<Rightarrow> GameState \<Rightarrow> Action \<Rightarrow> result" where
  "applyStartGame rnd state action =
     (if Phase state \<noteq> PhaseLobby then Err ErrInvalidAction state
      else if PlayerIndex action \<noteq> House state
        then Err (ErrMsg ''only the house can start the game'') state
      else if \<not> AllPlayersSeated state then Err ErrNotEnoughPlayers state
      else
        case dealHands [0, 1, 2, 3] (state\<lparr>Deck := Some (Shuffle rnd NewDeck)\<rparr>) of
          None \<Rightarrow> Panic
        | Some state1 \<Rightarrow>
            (case dealKitty state1 of
               None \<Rightarrow> Panic
             | Some state2 \<Rightarrow>
                 Ok (state2\<lparr>Phase := PhaseBidding,
                            CurrentPlayer := PlayerAfterDealer state2,
                            Bids := [],
                            Trump := None,
                            TricksPlayed := 0,
                            CompletedTricks := [],
                            CardsWon := (\<lambda>_. []),
                            LastTrick := None,
                            DiscardComplete := (\<lambda>_. False),
                            PendingDiscards := (\<lambda>_. None),
                            TrumpBroken := False\<rparr>)))"

text \<open>The two loops of \<open>applyPlaceBid\<close> over the bids: the current high bid, and the
  winner (the first bid that exceeds every earlier one, the dealer by default).\<close>

definition highBidOf :: "Bid list \<Rightarrow> int" where
  "highBidOf bids = foldl (\<lambda>highBid b. if Amount b > highBid then Amount b else highBid) 0 bids"

definition findBidWinner :: "int \<Rightarrow> Bid list \<Rightarrow> int \<times> int" where
  "findBidWinner dealer bids =
     foldl (\<lambda>(highBid, bidWinner) b.
              if Amount b > highBid then (Amount b, b_PlayerIndex b) else (highBid, bidWinner))
       (0, dealer) bids"

definition applyPlaceBid :: "GameState \<Rightarrow> Action \<Rightarrow> result" where
  "applyPlaceBid state action =
     (if Phase state \<noteq> PhaseBidding then Err ErrInvalidAction state
      else if PlayerIndex action \<noteq> CurrentPlayer state then Err ErrNotYourTurn state
      else
        let highBid = highBidOf (Bids state)
        in if BidAmount action \<noteq> 0 \<and> (BidAmount action < 2 \<or> BidAmount action > 6)
             then Err ErrInvalidBid state
           else if BidAmount action \<noteq> 0 \<and> BidAmount action \<le> highBid
             then Err (ErrMsg (''must bid higher than '' @ showInt highBid)) state
           else
             let isDealer = (PlayerIndex action = Dealer state);
                 allOthersPassed = (length (Bids state) = 3 \<and> highBid = 0);
                 amount = (if isDealer \<and> allOthersPassed \<and> BidAmount action = 0
                           then 2 else BidAmount action);
                 state1 = state\<lparr>Bids := Bids state @
                            [\<lparr>b_PlayerIndex = PlayerIndex action, Amount = amount\<rparr>]\<rparr>
             in if length (Bids state1) = 4
                then (let (highBid', bidWinner) = findBidWinner (Dealer state1) (Bids state1)
                      in Ok (state1\<lparr>BidWinner := bidWinner,
                                    WinningBid := highBid',
                                    CurrentPlayer := bidWinner,
                                    Phase := PhaseKitty\<rparr>))
                else Ok (state1\<lparr>CurrentPlayer := NextPlayer (CurrentPlayer state1)\<rparr>))"

definition parseSuit :: "string \<Rightarrow> Suit option" where
  "parseSuit name =
     (if name = ''spades'' then Some Spades
      else if name = ''hearts'' then Some Hearts
      else if name = ''diamonds'' then Some Diamonds
      else if name = ''clubs'' then Some Clubs
      else None)"

definition applySelectTrump :: "GameState \<Rightarrow> Action \<Rightarrow> result" where
  "applySelectTrump state action =
     (if Phase state \<noteq> PhaseKitty then Err ErrInvalidAction state
      else if PlayerIndex action \<noteq> BidWinner state then Err ErrNotYourTurn state
      else case parseSuit (TrumpSuit action) of
             None \<Rightarrow> Err ErrInvalidTrump state
           | Some trump \<Rightarrow> Ok (state\<lparr>Trump := Some trump\<rparr>))"

text \<open>
  The loop of \<open>applyTakeKitty\<close> over the requested ids. Each found card leaves the
  kitty and joins the hand at once, before the next id is looked up; an id that is not
  in the kitty returns the error from inside the loop. \<open>player.Hand\<close> dereferences
  the seat's pointer only when a card was found.
\<close>

fun takeKittyLoop :: "int \<Rightarrow> string list \<Rightarrow> GameState \<Rightarrow> result" where
  "takeKittyLoop seat [] state = Ok state"
| "takeKittyLoop seat (cardID # rest) state =
     (case findCard cardID (Kitty state) of
        None \<Rightarrow> Err ErrCardNotInKitty state
      | Some cardIdx \<Rightarrow>
          (case Players state seat of
             None \<Rightarrow> Panic
           | Some player \<Rightarrow>
               takeKittyLoop seat rest
                 (state\<lparr>Kitty := removeAt cardIdx (Kitty state),
                        Players := (Players state)(seat \<mapsto>
                          player\<lparr>Hand := Hand player @ [Kitty state ! cardIdx]\<rparr>)\<rparr>)))"

definition applyTakeKitty :: "GameState \<Rightarrow> Action \<Rightarrow> result" where
  "applyTakeKitty state action =
     (if Phase state \<noteq> PhaseKitty then Err ErrInvalidAction state
      else if PlayerIndex action \<noteq> BidWinner state then Err ErrNotYourTurn state
      else if \<not> inSeats (PlayerIndex action) then Panic
      else case takeKittyLoop (PlayerIndex action) (idsOf (CardIDs action)) state of
             Ok state1 \<Rightarrow> Ok (state1\<lparr>Kitty := []\<rparr>)
           | r \<Rightarrow> r)"

text \<open>
  The discard loop that \<open>applyDiscard\<close> and \<open>processDiscard\<close> both run on
  \<open>player.Hand\<close>: each named card is cut from the hand when it is found, and the first
  id that is not in the hand stops the loop with \<open>ErrCardNotInHand\<close>. The result is the
  hand as the loop left it, and whether every id was found.
\<close>

fun discardLoop :: "string list \<Rightarrow> Card list \<Rightarrow> Card list \<times> bool" where
  "discardLoop [] hand = (hand, True)"
| "discardLoop (cardID # rest) hand =
     (case findCard cardID hand of
        None \<Rightarrow> (hand, False)
      | Some cardIdx \<Rightarrow> discardLoop rest (removeAt cardIdx hand))"

text \<open>\<open>if ... && state.Deck != nil { newCards := state.Deck.Deal(n);
  player.Hand = append(player.Hand, newCards...) }\<close> for seat \<open>seat\<close> holding \<open>player\<close>.\<close>

definition drawCards :: "nat \<Rightarrow> int \<Rightarrow> Player \<Rightarrow> GameState \<Rightarrow> GameState" where
  "drawCards n seat player state =
     (case Deck state of
        None \<Rightarrow> state
      | Some d \<Rightarrow> (let (newCards, rest) = Deal n d
                   in state\<lparr>Deck := Some rest,
                            Players := (Players state)(seat \<mapsto>
                              player\<lparr>Hand := Hand player @ newCards\<rparr>)\<rparr>))"

definition processDiscard :: "GameState \<Rightarrow> int \<Rightarrow> string list \<Rightarrow> result" where
  "processDiscard state playerIndex cardIDs =
     (if \<not> inSeats playerIndex then Panic
      else
        let finish = (\<lambda>st. Ok (st\<lparr>DiscardComplete := (DiscardComplete st)(playerIndex := True),
                                  PendingDiscards := (PendingDiscards st)(playerIndex := None)\<rparr>))
        in case Players state playerIndex of
             None \<Rightarrow> (if cardIDs = [] then finish state else Panic)
           | Some player \<Rightarrow>
               (case discardLoop cardIDs (Hand player) of
                  (hand, False) \<Rightarrow>
                    Err ErrCardNotInHand
                      (state\<lparr>Players := (Players state)(playerIndex \<mapsto> player\<lparr>Hand := hand\<rparr>)\<rparr>)
                | (hand, True) \<Rightarrow>
                    (let player1 = player\<lparr>Hand := hand\<rparr>;
                         state1 = state\<lparr>Players := (Players state)(playerIndex \<mapsto> player1)\<rparr>;
                         state2 = (if length cardIDs > 0
                                   then drawCards (length cardIDs) playerIndex player1 state1
                                   else state1)
                     in finish state2)))"


text \<open>
  \<open>processPendingDiscards\<close>. The inner loop \<open>for i := 0; i < 4; i++\<close> looks, from
  \<open>nextPlayer\<close> on, for the first seat whose discard is not complete; it touches the
  record only once it has found one, and then leaves the loop (by \<open>return\<close> or
  \<open>break\<close>). \<open>findIncomplete k\<close> is that search with \<open>k\<close> rounds left.
\<close>

datatype scan = Found int | AllDone | ScanPanic

fun findIncomplete :: "nat \<Rightarrow> (int \<Rightarrow> bool) \<Rightarrow> int \<Rightarrow> scan" where
  "findIncomplete 0 discardComplete nextPlayer = AllDone"
| "findIncomplete (Suc k) discardComplete nextPlayer =
     (if \<not> inSeats nextPlayer then ScanPanic
      else if \<not> discardComplete nextPlayer then Found nextPlayer
      else findIncomplete k discardComplete (NextPlayer nextPlayer))"

text \<open>
  One pass of the outer \<open>for { ... }\<close>: it returns (\<open>Returned\<close>), goes round again
  (\<open>Again\<close>, after the \<open>break\<close>) or panics. The test
  \<open>len(pending) > 0 || pending != nil\<close> is \<open>pending != nil\<close>, since a nil slice has
  length 0.
\<close>

datatype pass = Returned GameState | Again GameState | PassPanic

definition pendingPass :: "GameState \<Rightarrow> pass" where
  "pendingPass state =
     (case findIncomplete 4 (DiscardComplete state) (NextPlayer (CurrentPlayer state)) of
        ScanPanic \<Rightarrow> PassPanic
      | AllDone \<Rightarrow>
          Returned (state\<lparr>Phase := PhasePlaying,
                          CurrentPlayer := BidWinner state,
                          CurrentTrick := Some \<lparr>Cards = [], Leader = BidWinner state,
                                                LeadSuit = Spades, Winner = 0\<rparr>\<rparr>)
      | Found nextPlayer \<Rightarrow>
          (let state1 = state\<lparr>CurrentPlayer := nextPlayer\<rparr>
           in case PendingDiscards state1 nextPlayer of
                None \<Rightarrow> Returned state1
              | Some cardIDs \<Rightarrow>
                  (case processDiscard state1 nextPlayer cardIDs of
                     Panic \<Rightarrow> PassPanic
                   | Err e state2 \<Rightarrow>
                       Returned (state2\<lparr>PendingDiscards :=
                                   (PendingDiscards state2)(nextPlayer := None)\<rparr>)
                   | Ok state2 \<Rightarrow> Again state2)))"

definition incomplete :: "GameState \<Rightarrow> nat" where
  "incomplete state = length (filter (\<lambda>i. \<not> DiscardComplete state i) [0, 1, 2, 3])"

lemma findIncomplete_Found:
  "findIncomplete k dc n = Found i \<Longrightarrow> inSeats i \<and> \<not> dc i"
  by (induction k dc n rule: findIncomplete.induct) (auto split: if_splits)

lemma processDiscard_Ok_complete:
  "processDiscard s i ids = Ok s' \<Longrightarrow>
     inSeats i \<and> DiscardComplete s' = (DiscardComplete s)(i := True)"
  by (auto simp: processDiscard_def drawCards_def Let_def
           split: if_splits option.splits prod.splits bool.splits)

lemma incomplete_less:
  "inSeats i \<Longrightarrow> \<not> DiscardComplete s i \<Longrightarrow>
   DiscardComplete s' = (DiscardComplete s)(i := True) \<Longrightarrow> incomplete s' < incomplete s"
  unfolding incomplete_def inSeats_def
proof -
  assume r: "0 \<le> i \<and> i < 4" and n: "\<not> DiscardComplete s i"
    and e: "DiscardComplete s' = (DiscardComplete s)(i := True)"
  from r have "i = 0 \<or> i = 1 \<or> i = 2 \<or> i = 3" by arith
  with n e show "length (filter (\<lambda>i. \<not> DiscardComplete s' i) [0, 1, 2, 3])
      < length (filter (\<lambda>i. \<not> DiscardComplete s i) [0, 1, 2, 3])"
    by auto
qed

lemma pendingPass_Again_less:
  assumes "pendingPass s = Again s'"
  shows "incomplete s' < incomplete s"
proof -
  from assms obtain i ids where
    f: "findIncomplete 4 (DiscardComplete s) (NextPlayer (CurrentPlayer s)) = Found i"
    and p: "processDiscard (s\<lparr>CurrentPlayer := i\<rparr>) i ids = Ok s'"
    by (auto simp: pendingPass_def Let_def split: scan.splits option.splits result.splits)
  from findIncomplete_Found [OF f] have "inSeats i" "\<not> DiscardComplete s i" by simp_all
  moreover from processDiscard_Ok_complete [OF p]
  have "DiscardComplete s' = (DiscardComplete s)(i := True)" by simp
  ultimately show ?thesis by (rule incomplete_less)
qed

text \<open>The loop itself; \<open>None\<close> is a panic. It has no error result: an error of
  \<open>processDiscard\<close> ends it silently.\<close>

function processPendingDiscards :: "GameState \<Rightarrow> GameState option" where
  "processPendingDiscards state =
     (case pendingPass state of
        PassPanic \<Rightarrow> None
      | Returned state1 \<Rightarrow> Some state1
      | Again state1 \<Rightarrow> processPendingDiscards state1)"
  by pat_completeness auto
termination
  by (relation "measure incomplete") (auto dest: pendingPass_Again_less)

declare processPendingDiscards.simps [simp del]

definition applyDiscard :: "GameState \<Rightarrow> Action \<Rightarrow> result" where
  "applyDiscard state action =
     (if Phase state \<noteq> PhaseKitty then Err ErrInvalidAction state
      else if PlayerIndex action \<noteq> BidWinner state then Err ErrNotYourTurn state
      else if Trump state = None
        then Err (ErrMsg ''must select trump before discarding'') state
      else if length (Kitty state) > 0
        then Err (ErrMsg ''must take cards from kitty first'') state
      else if \<not> inSeats (PlayerIndex action) then Panic
      else case Players state (PlayerIndex action) of
        None \<Rightarrow> Panic
      | Some player \<Rightarrow>
          (case discardLoop (idsOf (CardIDs action)) (Hand player) of
             (hand, found) \<Rightarrow>
               let player1 = player\<lparr>Hand := hand\<rparr>;
                   state1 = state\<lparr>Players := (Players state)(PlayerIndex action \<mapsto> player1)\<rparr>
               in if \<not> found then Err ErrCardNotInHand state1
                  else if length hand > 6 then Err ErrMustDiscardToSix state1
                  else
                    let state2 = (if length hand < 6
                                  then drawCards (6 - length hand) (PlayerIndex action)
                                         player1 state1
                                  else state1);
                        state3 = state2\<lparr>Kitty := [],
                                        Phase := PhaseDiscard,
                                        CurrentPlayer := PlayerAfterDealer state2,
                                        DiscardComplete := (\<lambda>_. False)(BidWinner state2 := True),
                                        PendingDiscards := (\<lambda>_. None)\<rparr>
                    in if CurrentPlayer state3 = BidWinner state3
                       then (case processPendingDiscards state3 of
                               None \<Rightarrow> Panic
                             | Some state4 \<Rightarrow> Ok state4)
                       else Ok state3))"

definition applyDiscardDraw :: "GameState \<Rightarrow> Action \<Rightarrow> result" where
  "applyDiscardDraw state action =
     (if Phase state \<noteq> PhaseDiscard then Err ErrInvalidAction state
      else if \<not> inSeats (PlayerIndex action) then Panic
      else if DiscardComplete state (PlayerIndex action)
        then Err (ErrMsg ''already completed discard'') state
      else if PlayerIndex action \<noteq> CurrentPlayer state
        then Ok (state\<lparr>PendingDiscards :=
                   (PendingDiscards state)(PlayerIndex action := CardIDs action)\<rparr>)
      else case processDiscard state (PlayerIndex action) (idsOf (CardIDs action)) of
             Ok state1 \<Rightarrow>
               (case processPendingDiscards state1 of
                  None \<Rightarrow> Panic
                | Some state2 \<Rightarrow> Ok state2)
           | r \<Rightarrow> r)"

text \<open>\<open>determineTrickWinner\<close>: the loop from index 1 keeps the index and the card of
  the best play so far.\<close>

definition determineTrickWinner :: "Trick \<Rightarrow> Suit \<Rightarrow> int" where
  "determineTrickWinner trick trump =
     (if length (Cards trick) = 0 then Leader trick
      else
        let (winningIdx, winningCard) =
              foldl (\<lambda>(winningIdx, winningCard) i.
                       let card = tc_Card (Cards trick ! i)
                       in if Beats card winningCard trump (LeadSuit trick) then (i, card)
                          else (winningIdx, winningCard))
                (0, tc_Card (Cards trick ! 0)) [1 ..< length (Cards trick)]
        in tc_PlayerIndex (Cards trick ! winningIdx))"

text \<open>The loop of \<open>applyPlayCard\<close> that looks for a card of the suit led in the hand.\<close>

definition hasLeadSuit :: "Card list \<Rightarrow> Suit \<Rightarrow> Suit \<Rightarrow> bool" where
  "hasLeadSuit hand trump leadSuit =
     list_ex (\<lambda>c. if leadSuit = trump then IsTrump c trump
                  else Suit c = leadSuit \<and> \<not> IsTrump c trump) hand"

definition applyPlayCard :: "GameState \<Rightarrow> Action \<Rightarrow> result" where
  "applyPlayCard state action =
     (if Phase state \<noteq> PhasePlaying then Err ErrInvalidAction state
      else if PlayerIndex action \<noteq> CurrentPlayer state then Err ErrNotYourTurn state
      else if \<not> inSeats (PlayerIndex action) then Panic
      else case Players state (PlayerIndex action) of
        None \<Rightarrow> Panic
      | Some player \<Rightarrow>
      (case findCard (CardID action) (Hand player) of
        None \<Rightarrow> Err ErrCardNotInHand state
      | Some cardIdx \<Rightarrow>
      (case Trump state of
        None \<Rightarrow> Panic
      | Some trump \<Rightarrow>
      (case CurrentTrick state of
        None \<Rightarrow> Panic
      | Some trick0 \<Rightarrow>
          let playedCard = Hand player ! cardIdx;
              playedIsTrump = IsTrump playedCard trump;
              trick1 = (if length (Cards trick0) = 0
                        then trick0\<lparr>LeadSuit := (if playedIsTrump then trump
                                                   else Suit playedCard)\<rparr>
                        else trick0);
              state1 = state\<lparr>CurrentTrick := Some trick1\<rparr>;
              leadSuit = LeadSuit trick1;
              trumpLed = (leadSuit = trump);
              holds = hasLeadSuit (Hand player) trump leadSuit;
              violation =
                (if length (Cards trick1) > 0
                 then (if trumpLed
                       then (if \<not> playedIsTrump \<and> holds then True else False)
                       else (if holds
                             then (if Suit playedCard \<noteq> leadSuit \<and> \<not> playedIsTrump then True
                                   else if playedIsTrump then True
                                   else False)
                             else False))
                 else False)
          in if violation then Err ErrMustFollowSuit state1
             else
               let trick2 = trick1\<lparr>Cards := Cards trick1 @
                              [\<lparr>tc_Card = playedCard, tc_PlayerIndex = PlayerIndex action\<rparr>]\<rparr>;
                   state2 = state1\<lparr>CurrentTrick := Some trick2,
                                   Players := (Players state1)(PlayerIndex action \<mapsto>
                                     player\<lparr>Hand := removeAt cardIdx (Hand player)\<rparr>)\<rparr>
               in if length (Cards trick2) = 4
                  then
                    let winner = determineTrickWinner trick2 trump;
                        trick3 = trick2\<lparr>Winner := winner\<rparr>;
                        winningTeam = GetTeamForPlayer winner;
                        state3 = state2\<lparr>CurrentTrick := Some trick3,
                                   TricksPlayed := TricksPlayed state2 + 1,
                                   CompletedTricks := CompletedTricks state2 @
                                     [\<lparr>ct_Cards = Cards trick3, ct_Winner = winner\<rparr>],
                                   CardsWon := (CardsWon state2)(winningTeam :=
                                     CardsWon state2 winningTeam @ map tc_Card (Cards trick3)),
                                   LastTrick := Some trick3\<rparr>
                    in if TricksPlayed state3 = 6
                       then Ok (state3\<lparr>Phase := PhaseScoring\<rparr>)
                       else Ok (state3\<lparr>CurrentTrick := Some \<lparr>Cards = [], Leader = winner,
                                                               LeadSuit = Spades, Winner = 0\<rparr>,
                                       CurrentPlayer := winner\<rparr>)
                  else Ok (state2\<lparr>CurrentPlayer := NextPlayer (CurrentPlayer state2)\<rparr>)))))"


definition StartNewHand :: "Rand \<Rightarrow> GameState \<Rightarrow> GameState option" where
  "StartNewHand rnd state =
     (case dealHands [0, 1, 2, 3]
             (state\<lparr>Dealer := NextPlayer (Dealer state),
                    Deck := Some (Shuffle rnd NewDeck)\<rparr>) of
        None \<Rightarrow> None
      | Some state1 \<Rightarrow>
          (case dealKitty state1 of
             None \<Rightarrow> None
           | Some state2 \<Rightarrow>
               Some (state2\<lparr>Phase := PhaseBidding,
                            CurrentPlayer := PlayerAfterDealer state2,
                            Bids := [],
                            Trump := None,
                            CurrentTrick := None,
                            LastTrick := None,
                            TricksPlayed := 0,
                            CompletedTricks := [],
                            CardsWon := (\<lambda>_. []),
                            BidWinner := - 1,
                            WinningBid := 0,
                            DiscardComplete := (\<lambda>_. False),
                            PendingDiscards := (\<lambda>_. None),
                            TrumpBroken := False\<rparr>)))"

definition CheckGameOver :: "GameState \<Rightarrow> bool \<times> int" where
  "CheckGameOver state =
     (if Score (Teams state 0) \<ge> TargetScore state then (True, 0)
      else if Score (Teams state 1) \<ge> TargetScore state then (True, 1)
      else (False, - 1))"

definition applyChangeName :: "GameState \<Rightarrow> Action \<Rightarrow> result" where
  "applyChangeName state action =
     (if PlayerIndex action < 0 \<or> PlayerIndex action > 3
        then Err (ErrMsg ''invalid seat index'') state
      else case Players state (PlayerIndex action) of
        None \<Rightarrow> Err ErrSeatEmpty state
      | Some p \<Rightarrow> Ok (state\<lparr>Players := (Players state)(PlayerIndex action \<mapsto>
                         p\<lparr>Name := PlayerName action\<rparr>)\<rparr>))"

definition applyTransferHouse :: "GameState \<Rightarrow> Action \<Rightarrow> result" where
  "applyTransferHouse state action =
     (if PlayerIndex action \<noteq> House state
        then Err (ErrMsg ''only the house can transfer ownership'') state
      else
        let targetSeat = TargetSeat action
        in if targetSeat < 0 \<or> targetSeat > 3 then Err (ErrMsg ''invalid seat index'') state
           else if targetSeat = House state then Err (ErrMsg ''already the house'') state
           else case Players state targetSeat of
                  None \<Rightarrow> Err (ErrMsg ''target seat is empty or disconnected'') state
                | Some p \<Rightarrow>
                    if \<not> Connected p \<or> Name p = []
                    then Err (ErrMsg ''target seat is empty or disconnected'') state
                    else Ok (state\<lparr>House := targetSeat\<rparr>))"

definition applyKickPlayer :: "GameState \<Rightarrow> Action \<Rightarrow> result" where
  "applyKickPlayer state action =
     (if PlayerIndex action \<noteq> House state
        then Err (ErrMsg ''only the house can kick players'') state
      else
        let targetSeat = TargetSeat action
        in if targetSeat < 0 \<or> targetSeat > 3 then Err (ErrMsg ''invalid seat index'') state
           else if targetSeat = House state then Err (ErrMsg ''cannot kick yourself'') state
           else case Players state targetSeat of
                  None \<Rightarrow> Err ErrSeatEmpty state
                | Some p \<Rightarrow>
                    if Phase state = PhaseLobby
                    then Ok (state\<lparr>Players := (Players state)(targetSeat := None)\<rparr>)
                    else Ok (state\<lparr>Players := (Players state)(targetSeat \<mapsto>
                               p\<lparr>Connected := False, Name := [], SessionToken := []\<rparr>)\<rparr>))"

text \<open>The loop of \<open>applyResetGame\<close> that clears the hand of every occupied seat.\<close>

definition clearHands :: "(int \<Rightarrow> Player option) \<Rightarrow> int \<Rightarrow> Player option" where
  "clearHands players =
     foldl (\<lambda>ps i. case ps i of None \<Rightarrow> ps | Some p \<Rightarrow> ps(i \<mapsto> p\<lparr>Hand := []\<rparr>))
       players [0, 1, 2, 3]"

definition applyResetGame :: "GameState \<Rightarrow> Action \<Rightarrow> result" where
  "applyResetGame state action =
     (if PlayerIndex action \<noteq> House state
        then Err (ErrMsg ''only the house can reset the game'') state
      else
        let gamesWon0 = GamesWon (Teams state 0);
            gamesWon1 = GamesWon (Teams state 1);
            players = Players state;
            targetScore = TargetScore state;
            house = House state;
            fresh = NewGameState targetScore
        in Ok (fresh\<lparr>Players := clearHands players,
                     Teams := (Teams fresh)
                        (0 := (Teams fresh 0)\<lparr>GamesWon := gamesWon0\<rparr>,
                         1 := (Teams fresh 1)\<lparr>GamesWon := gamesWon1\<rparr>),
                     House := house,
                     Dealer := house\<rparr>))"

definition ApplyAction :: "Rand \<Rightarrow> GameState \<Rightarrow> Action \<Rightarrow> result" where
  "ApplyAction rnd state action =
     (case Type action of
        ActionJoinSeat \<Rightarrow> applyJoinSeat rnd state action
      | ActionLeaveSeat \<Rightarrow> applyLeaveSeat state action
      | ActionChangeName \<Rightarrow> applyChangeName state action
      | ActionKickPlayer \<Rightarrow> applyKickPlayer state action
      | ActionTransferHouse \<Rightarrow> applyTransferHouse state action
      | ActionStartGame \<Rightarrow> applyStartGame rnd state action
      | ActionPlaceBid \<Rightarrow> applyPlaceBid state action
      | ActionSelectTrump \<Rightarrow> applySelectTrump state action
      | ActionTakeKitty \<Rightarrow> applyTakeKitty state action
      | ActionDiscard \<Rightarrow> applyDiscard state action
      | ActionDiscardDraw \<Rightarrow> applyDiscardDraw state action
      | ActionPlayCard \<Rightarrow> applyPlayCard state action
      | ActionResetGame \<Rightarrow> applyResetGame state action
      | ActionOther name \<Rightarrow> Err ErrInvalidAction state)"

section \<open>Scoring engine (game/scoring.go)\<close>

record ScoreResult =
  HighTeam :: int
  HighCard :: string
  LowTeam :: int
  LowCard :: string
  JackTeam :: int
  OffJackTeam :: int
  GameTeam :: int
  Team0Points :: int
  Team1Points :: int
  BidderTeam :: int
  sr_BidAmount :: int
  BidMade :: bool
  Team0Change :: int
  Team1Change :: int
  sr_GamePoints :: "int \<times> int"

text \<open>The plays of the hand in the order of the two nested loops over
  \<open>state.CompletedTricks\<close> and \<open>trick.Cards\<close>.\<close>

definition playedCards :: "CompletedTrick list \<Rightarrow> TrickCard list" where
  "playedCards tricks = concat (map ct_Cards tricks)"

text \<open>The High/Low loop: \<open>highCard\<close> and \<open>lowCard\<close> are nil until the first card of the
  trump suit, each paired here with the seat that played it.\<close>

definition highLowStep ::
  "Suit \<Rightarrow> (TrickCard option \<times> TrickCard option) \<Rightarrow> TrickCard
    \<Rightarrow> (TrickCard option \<times> TrickCard option)" where
  "highLowStep trump acc tc =
     (case acc of (high, low) \<Rightarrow>
        if Suit (tc_Card tc) = trump
        then ((case high of
                 None \<Rightarrow> Some tc
               | Some h \<Rightarrow> if Rank (tc_Card tc) > Rank (tc_Card h) then Some tc else high),
              (case low of
                 None \<Rightarrow> Some tc
               | Some l \<Rightarrow> if Rank (tc_Card tc) < Rank (tc_Card l) then Some tc else low))
        else (high, low))"

definition findHighLow :: "Suit \<Rightarrow> CompletedTrick list \<Rightarrow> TrickCard option \<times> TrickCard option"
  where
  "findHighLow trump tricks = foldl (highLowStep trump) (None, None) (playedCards tricks)"

text \<open>The Jack and Off-Jack loops: the team of the winner of the first trick that holds
  the jack of the given suit, \<open>-1\<close> when no trick holds it.\<close>

fun capturedJack :: "Suit \<Rightarrow> CompletedTrick list \<Rightarrow> int" where
  "capturedJack suit [] = - 1"
| "capturedJack suit (trick # tricks) =
     (if list_ex (\<lambda>tc. Suit (tc_Card tc) = suit \<and> Rank (tc_Card tc) = Jack) (ct_Cards trick)
      then GetTeamForPlayer (ct_Winner trick)
      else capturedJack suit tricks)"

definition sumGamePoints :: "Card list \<Rightarrow> int" where
  "sumGamePoints cards = foldl (\<lambda>total card. total + GamePoints (Rank card)) 0 cards"

text \<open>\<open>if team == 0 { result.Team0Points++ } else if team == 1 { result.Team1Points++ }\<close>,
  the step the source repeats for each of the five categories.\<close>

definition addPoint :: "int \<Rightarrow> ScoreResult \<Rightarrow> ScoreResult" where
  "addPoint team result =
     (if team = 0 then result\<lparr>Team0Points := Team0Points result + 1\<rparr>
      else if team = 1 then result\<lparr>Team1Points := Team1Points result + 1\<rparr>
      else result)"

text \<open>The block "Find High and Low trump from completed tricks" with the two
  assignments that follow it.\<close>

definition scoreHighLow :: "Suit \<Rightarrow> GameState \<Rightarrow> ScoreResult \<Rightarrow> ScoreResult" where
  "scoreHighLow trump state result =
     (case findHighLow trump (CompletedTricks state) of
        (highCard, lowCard) \<Rightarrow>
          let result1 = (case highCard of
                           None \<Rightarrow> result
                         | Some h \<Rightarrow> result\<lparr>HighTeam := GetTeamForPlayer (tc_PlayerIndex h),
                                            HighCard := ID (tc_Card h)\<rparr>)
          in (case lowCard of
                None \<Rightarrow> result1
              | Some l \<Rightarrow> result1\<lparr>LowTeam := GetTeamForPlayer (tc_PlayerIndex l),
                                  LowCard := ID (tc_Card l)\<rparr>))"

text \<open>The blocks "Find Jack of trump" and "Find Off Jack".\<close>

definition scoreJacks :: "Suit \<Rightarrow> GameState \<Rightarrow> ScoreResult \<Rightarrow> ScoreResult" where
  "scoreJacks trump state result =
     (let result1 = result\<lparr>JackTeam := capturedJack trump (CompletedTricks state)\<rparr>;
          offSuit = OffSuit trump
      in result1\<lparr>OffJackTeam := capturedJack offSuit (CompletedTricks state)\<rparr>)"

text \<open>The block "Calculate Game points from cards won by each team".\<close>

definition scoreGame :: "GameState \<Rightarrow> ScoreResult \<Rightarrow> ScoreResult" where
  "scoreGame state result =
     (let gamePoints = (sumGamePoints (CardsWon state 0), sumGamePoints (CardsWon state 1));
          result1 = result\<lparr>sr_GamePoints := gamePoints\<rparr>
      in if fst gamePoints > snd gamePoints then result1\<lparr>GameTeam := 0\<rparr>
         else if snd gamePoints > fst gamePoints then result1\<lparr>GameTeam := 1\<rparr>
         else result1)"

text \<open>The block "Calculate total points for each team".\<close>

definition totalPoints :: "ScoreResult \<Rightarrow> ScoreResult" where
  "totalPoints result =
     (let result1 = addPoint (HighTeam result) result;
          result2 = addPoint (LowTeam result1) result1;
          result3 = addPoint (JackTeam result2) result2;
          result4 = addPoint (OffJackTeam result3) result3
      in addPoint (GameTeam result4) result4)"

text \<open>The blocks "Apply setback rule" and "Calculate score changes".\<close>

definition scoreChanges :: "ScoreResult \<Rightarrow> ScoreResult" where
  "scoreChanges result =
     (let bidderTeamPoints = (if BidderTeam result = 1 then Team1Points result
                              else Team0Points result);
          result1 = result\<lparr>BidMade := (bidderTeamPoints \<ge> sr_BidAmount result)\<rparr>
      in if BidMade result1
         then result1\<lparr>Team0Change := Team0Points result1,
                      Team1Change := Team1Points result1\<rparr>
         else if BidderTeam result1 = 0
         then result1\<lparr>Team0Change := - sr_BidAmount result1,
                      Team1Change := Team1Points result1\<rparr>
         else result1\<lparr>Team0Change := Team0Points result1,
                      Team1Change := - sr_BidAmount result1\<rparr>)"

definition CalculateScore :: "GameState \<Rightarrow> ScoreResult" where
  "CalculateScore state =
     (let result = \<lparr>HighTeam = - 1, HighCard = [], LowTeam = - 1, LowCard = [],
                    JackTeam = - 1, OffJackTeam = - 1, GameTeam = - 1,
                    Team0Points = 0, Team1Points = 0,
                    BidderTeam = GetTeamForPlayer (BidWinner state),
                    sr_BidAmount = WinningBid state, BidMade = False,
                    Team0Change = 0, Team1Change = 0, sr_GamePoints = (0, 0)\<rparr>
      in case Trump state of
           None \<Rightarrow> result
         | Some trump \<Rightarrow>
             scoreChanges (totalPoints (scoreGame state (scoreJacks trump state
               (scoreHighLow trump state result)))))"

definition ApplyScore :: "GameState \<Rightarrow> ScoreResult \<Rightarrow> GameState" where
  "ApplyScore state result =
     state\<lparr>Teams := (Teams state)
       (0 := (Teams state 0)\<lparr>Score := Score (Teams state 0) + Team0Change result\<rparr>,
        1 := (Teams state 1)\<lparr>Score := Score (Teams state 1) + Team1Change result\<rparr>)\<rparr>"

section \<open>Dispatch layer (server/protocol.go, server/handlers.go)\<close>

datatype MessageType =
  MsgJoinTable | MsgLeaveSeat | MsgChangeName | MsgKickPlayer | MsgTransferHouse
| MsgStartGame | MsgPlaceBid | MsgSelectTrump | MsgTakeKitty | MsgDiscard | MsgDiscardDraw
| MsgPlayCard | MsgRejoin | MsgNewHand | MsgResetGame | MsgOther string

record ClientMessage =
  m_Type :: MessageType
  m_SeatIndex :: "int option"
  m_PlayerName :: string
  m_Amount :: "int option"
  m_CardID :: string
  m_CardIDs :: "string list option"
  m_TrumpSuit :: string
  m_Token :: string

text \<open>
  What a handler reads from the connection registry (server/hub.go): the seat of the
  sending client (\<open>client.SeatIndex\<close>, \<open>-1\<close> when not seated) and, per seat, the token
  of the client the hub holds there (\<open>Hub.GetClientBySeat(i)\<close>, nil when none).
\<close>

record Client =
  c_SeatIndex :: int
  hubSeats :: "int \<Rightarrow> string option"

text \<open>A Go struct literal \<open>game.Action{Type: t, ...}\<close>: the fields it does not name
  hold their zero value.\<close>

definition zeroAction :: "ActionType \<Rightarrow> Action" where
  "zeroAction t = \<lparr>Type = t, PlayerIndex = 0, PlayerName = [], BidAmount = 0, CardID = [],
                    TrumpSuit = [], CardIDs = None, TargetSeat = 0\<rparr>"

record TeamState =
  ts_PlayerIndices :: "int list"
  ts_Score :: int
  ts_GamesWon :: int

record PublicPlayer =
  pp_Name :: string
  pp_SeatIndex :: int
  pp_Connected :: bool
  pp_CardCount :: int
  pp_HasBid :: bool
  pp_DiscardReady :: bool
  pp_DiscardComplete :: bool

record TrickState =
  tr_Cards :: "TrickCard list"
  tr_Leader :: int
  tr_LeadSuit :: string
  tr_Winner :: int

record PublicState =
  ps_Phase :: Phase
  ps_Players :: "PublicPlayer list"
  ps_Teams :: "TeamState \<times> TeamState"
  ps_CurrentTrick :: "TrickState option"
  ps_LastTrick :: "TrickState option"
  ps_Trump :: "string option"
  ps_Bids :: "Bid list"
  ps_Dealer :: int
  ps_CurrentPlayer :: int
  ps_TricksPlayed :: int
  ps_BidWinner :: int
  ps_WinningBid :: int
  ps_TargetScore :: int
  ps_KittyCount :: int
  ps_House :: int
  ps_TrumpBroken :: bool

definition publicPlayer :: "GameState \<Rightarrow> int \<Rightarrow> PublicPlayer" where
  "publicPlayer gs i =
     (case Players gs i of
        None \<Rightarrow> \<lparr>pp_Name = [], pp_SeatIndex = i, pp_Connected = False, pp_CardCount = 0,
                  pp_HasBid = False, pp_DiscardReady = False, pp_DiscardComplete = False\<rparr>
      | Some p \<Rightarrow> \<lparr>pp_Name = Name p, pp_SeatIndex = SeatIndex p, pp_Connected = Connected p,
                    pp_CardCount = int (length (Hand p)),
                    pp_HasBid = list_ex (\<lambda>b. b_PlayerIndex b = i) (Bids gs),
                    pp_DiscardReady = (PendingDiscards gs i \<noteq> None),
                    pp_DiscardComplete = DiscardComplete gs i\<rparr>)"

definition teamState :: "Team \<Rightarrow> TeamState" where
  "teamState t = \<lparr>ts_PlayerIndices = PlayerIndices t, ts_Score = Score t,
                  ts_GamesWon = GamesWon t\<rparr>"

definition trickState :: "Trick \<Rightarrow> TrickState" where
  "trickState t = \<lparr>tr_Cards = Cards t, tr_Leader = Leader t,
                   tr_LeadSuit = Suit_String (LeadSuit t), tr_Winner = Winner t\<rparr>"

definition BuildPublicState :: "GameState \<Rightarrow> PublicState" where
  "BuildPublicState gs =
     \<lparr>ps_Phase = Phase gs,
      ps_Players = map (publicPlayer gs) [0, 1, 2, 3],
      ps_Teams = (teamState (Teams gs 0), teamState (Teams gs 1)),
      ps_CurrentTrick = map_option trickState (CurrentTrick gs),
      ps_LastTrick = map_option trickState (LastTrick gs),
      ps_Trump = map_option Suit_String (Trump gs),
      ps_Bids = Bids gs,
      ps_Dealer = Dealer gs,
      ps_CurrentPlayer = CurrentPlayer gs,
      ps_TricksPlayed = TricksPlayed gs,
      ps_BidWinner = BidWinner gs,
      ps_WinningBid = WinningBid gs,
      ps_TargetScore = TargetScore gs,
      ps_KittyCount = int (length (Kitty gs)),
      ps_House = House gs,
      ps_TrumpBroken = TrumpBroken gs\<rparr>"

definition handleJoinTable :: "Rand \<Rightarrow> Client \<Rightarrow> ClientMessage \<Rightarrow> GameState \<Rightarrow> result" where
  "handleJoinTable rnd client msg gs =
     (case m_SeatIndex msg of
        None \<Rightarrow> Err ErrInvalidAction gs
      | Some seatIndex \<Rightarrow>
          let left = (if c_SeatIndex client \<ge> 0 \<and> c_SeatIndex client \<noteq> seatIndex
                      then ApplyAction rnd gs
                             ((zeroAction ActionLeaveSeat)\<lparr>PlayerIndex := c_SeatIndex client\<rparr>)
                      else Ok gs)
          in case left of
               Ok gs1 \<Rightarrow>
                 if Phase gs1 \<noteq> PhaseLobby
                 then (if \<not> inSeats seatIndex then Panic
                       else case Players gs1 seatIndex of
                              None \<Rightarrow> Err ErrInvalidAction gs1
                            | Some player \<Rightarrow>
                                if Name player \<noteq> [] \<and> Connected player then Err ErrSeatTaken gs1
                                else Ok (gs1\<lparr>Players := (Players gs1)(seatIndex \<mapsto>
                                           player\<lparr>Name := m_PlayerName msg, Connected := True,
                                                  SessionToken := GenerateSessionToken rnd\<rparr>)\<rparr>))
                 else ApplyAction rnd gs1
                        ((zeroAction ActionJoinSeat)\<lparr>PlayerIndex := seatIndex,
                                                     PlayerName := m_PlayerName msg\<rparr>)
             | r \<Rightarrow> r)"

definition handleLeaveSeat :: "Rand \<Rightarrow> Client \<Rightarrow> GameState \<Rightarrow> result" where
  "handleLeaveSeat rnd client gs =
     (if c_SeatIndex client < 0 then Err ErrSeatEmpty gs
      else ApplyAction rnd gs
             ((zeroAction ActionLeaveSeat)\<lparr>PlayerIndex := c_SeatIndex client\<rparr>))"

text \<open>\<open>handleStartGame\<close> builds \<open>game.Action{Type: game.ActionStartGame}\<close>: it does
  not look at the client.\<close>

definition handleStartGame :: "Rand \<Rightarrow> Client \<Rightarrow> GameState \<Rightarrow> result" where
  "handleStartGame rnd client gs = ApplyAction rnd gs (zeroAction ActionStartGame)"

definition handlePlaceBid :: "Rand \<Rightarrow> Client \<Rightarrow> ClientMessage \<Rightarrow> GameState \<Rightarrow> result" where
  "handlePlaceBid rnd client msg gs =
     (if c_SeatIndex client < 0 then Err ErrInvalidAction gs
      else
        let bidAmount = (case m_Amount msg of None \<Rightarrow> 0 | Some n \<Rightarrow> n)
        in ApplyAction rnd gs
             ((zeroAction ActionPlaceBid)\<lparr>PlayerIndex := c_SeatIndex client,
                                          BidAmount := bidAmount\<rparr>))"

definition handleSelectTrump :: "Rand \<Rightarrow> Client \<Rightarrow> ClientMessage \<Rightarrow> GameState \<Rightarrow> result" where
  "handleSelectTrump rnd client msg gs =
     (if c_SeatIndex client < 0 then Err ErrInvalidAction gs
      else ApplyAction rnd gs
             ((zeroAction ActionSelectTrump)\<lparr>PlayerIndex := c_SeatIndex client,
                                             TrumpSuit := m_TrumpSuit msg\<rparr>))"

definition handleTakeKitty :: "Rand \<Rightarrow> Client \<Rightarrow> ClientMessage \<Rightarrow> GameState \<Rightarrow> result" where
  "handleTakeKitty rnd client msg gs =
     (if c_SeatIndex client < 0 then Err ErrInvalidAction gs
      else ApplyAction rnd gs
             ((zeroAction ActionTakeKitty)\<lparr>PlayerIndex := c_SeatIndex client,
                                           CardIDs := m_CardIDs msg\<rparr>))"

definition handleDiscard :: "Rand \<Rightarrow> Client \<Rightarrow> ClientMessage \<Rightarrow> GameState \<Rightarrow> result" where
  "handleDiscard rnd client msg gs =
     (if c_SeatIndex client < 0 then Err ErrInvalidAction gs
      else ApplyAction rnd gs
             ((zeroAction ActionDiscard)\<lparr>PlayerIndex := c_SeatIndex client,
                                         CardIDs := m_CardIDs msg\<rparr>))"

definition handleDiscardDraw :: "Rand \<Rightarrow> Client \<Rightarrow> ClientMessage \<Rightarrow> GameState \<Rightarrow> result" where
  "handleDiscardDraw rnd client msg gs =
     (if c_SeatIndex client < 0 then Err ErrInvalidAction gs
      else ApplyAction rnd gs
             ((zeroAction ActionDiscardDraw)\<lparr>PlayerIndex := c_SeatIndex client,
                                             CardIDs := m_CardIDs msg\<rparr>))"

definition handleScoring :: "GameState \<Rightarrow> GameState" where
  "handleScoring gs =
     (let result = CalculateScore gs;
          gs1 = ApplyScore gs result
      in case CheckGameOver gs1 of
           (True, winningTeam) \<Rightarrow>
             gs1\<lparr>Phase := PhaseFinished,
                 Teams := (Teams gs1)(winningTeam :=
                   (Teams gs1 winningTeam)\<lparr>GamesWon := GamesWon (Teams gs1 winningTeam) + 1\<rparr>)\<rparr>
         | (False, _) \<Rightarrow> gs1)"

definition handlePlayCard :: "Rand \<Rightarrow> Client \<Rightarrow> ClientMessage \<Rightarrow> GameState \<Rightarrow> result" where
  "handlePlayCard rnd client msg gs =
     (if c_SeatIndex client < 0 then Err ErrInvalidAction gs
      else case ApplyAction rnd gs
                  ((zeroAction ActionPlayCard)\<lparr>PlayerIndex := c_SeatIndex client,
                                               CardID := m_CardID msg\<rparr>) of
             Ok gs1 \<Rightarrow> if Phase gs1 = PhaseScoring then Ok (handleScoring gs1) else Ok gs1
           | r \<Rightarrow> r)"

text \<open>The loop of \<open>handleNewHand\<close> that seats again, on the fresh table, every seat
  the hub holds a client for; \<open>string(rune('1'+i))\<close> is the digit of \<open>i + 1\<close>.\<close>

definition reseat :: "Client \<Rightarrow> int \<Rightarrow> Player option" where
  "reseat client i =
     (if inSeats i
      then (case hubSeats client i of
              None \<Rightarrow> None
            | Some token \<Rightarrow>
                Some \<lparr>Name = ''Player '' @ [char_of (49 + i)], SeatIndex = i, Hand = [],
                      SessionToken = token, Connected = True\<rparr>)
      else None)"

definition handleNewHand :: "Rand \<Rightarrow> Client \<Rightarrow> GameState \<Rightarrow> result" where
  "handleNewHand rnd client gs =
     (if Phase gs \<noteq> PhaseScoring \<and> Phase gs \<noteq> PhaseFinished then Err ErrInvalidAction gs
      else if Phase gs = PhaseFinished
      then
        let gamesWon0 = GamesWon (Teams gs 0);
            gamesWon1 = GamesWon (Teams gs 1);
            fresh = NewGameState (TargetScore gs)
        in Ok (fresh\<lparr>Teams := (Teams fresh)
                        (0 := (Teams fresh 0)\<lparr>GamesWon := gamesWon0\<rparr>,
                         1 := (Teams fresh 1)\<lparr>GamesWon := gamesWon1\<rparr>),
                     Players := reseat client\<rparr>)
      else case StartNewHand rnd gs of
             None \<Rightarrow> Panic
           | Some gs1 \<Rightarrow> Ok gs1)"

text \<open>The loop of \<open>handleRejoin\<close>: the first seat whose player carries the token.\<close>

definition handleRejoin :: "ClientMessage \<Rightarrow> GameState \<Rightarrow> result" where
  "handleRejoin msg gs =
     (case filter (\<lambda>i. case Players gs i of
                          None \<Rightarrow> False
                        | Some p \<Rightarrow> SessionToken p = m_Token msg) [0, 1, 2, 3] of
        [] \<Rightarrow> Err ErrRejoinFailed gs
      | i # _ \<Rightarrow>
          (case Players gs i of
             None \<Rightarrow> Err ErrRejoinFailed gs
           | Some p \<Rightarrow> Ok (gs\<lparr>Players := (Players gs)(i \<mapsto> p\<lparr>Connected := True\<rparr>)\<rparr>)))"

definition handleChangeName :: "Rand \<Rightarrow> Client \<Rightarrow> ClientMessage \<Rightarrow> GameState \<Rightarrow> result" where
  "handleChangeName rnd client msg gs =
     (if c_SeatIndex client < 0 then Err ErrSeatEmpty gs
      else ApplyAction rnd gs
             ((zeroAction ActionChangeName)\<lparr>PlayerIndex := c_SeatIndex client,
                                            PlayerName := m_PlayerName msg\<rparr>))"

definition handleResetGame :: "Rand \<Rightarrow> Client \<Rightarrow> GameState \<Rightarrow> result" where
  "handleResetGame rnd client gs =
     (if c_SeatIndex client < 0 then Err ErrInvalidAction gs
      else ApplyAction rnd gs
             ((zeroAction ActionResetGame)\<lparr>PlayerIndex := c_SeatIndex client\<rparr>))"

definition handleKickPlayer :: "Rand \<Rightarrow> Client \<Rightarrow> ClientMessage \<Rightarrow> GameState \<Rightarrow> result" where
  "handleKickPlayer rnd client msg gs =
     (if c_SeatIndex client < 0 then Err ErrInvalidAction gs
      else case m_SeatIndex msg of
             None \<Rightarrow> Err ErrInvalidAction gs
           | Some targetSeat \<Rightarrow>
               ApplyAction rnd gs
                 ((zeroAction ActionKickPlayer)\<lparr>PlayerIndex := c_SeatIndex client,
                                                TargetSeat := targetSeat\<rparr>))"

definition handleTransferHouse :: "Rand \<Rightarrow> Client \<Rightarrow> ClientMessage \<Rightarrow> GameState \<Rightarrow> result" where
  "handleTransferHouse rnd client msg gs =
     (if c_SeatIndex client < 0 then Err ErrInvalidAction gs
      else case m_SeatIndex msg of
             None \<Rightarrow> Err ErrInvalidAction gs
           | Some targetSeat \<Rightarrow>
               ApplyAction rnd gs
                 ((zeroAction ActionTransferHouse)\<lparr>PlayerIndex := c_SeatIndex client,
                                                   TargetSeat := targetSeat\<rparr>))"

text \<open>\<open>HandleMessage\<close>: the game record after the message, with the error the handler
  returned if any. The replies and broadcasts it sends do not touch the record.\<close>

definition HandleMessage :: "Rand \<Rightarrow> Client \<Rightarrow> ClientMessage \<Rightarrow> GameState \<Rightarrow> result" where
  "HandleMessage rnd client msg gs =
     (case m_Type msg of
        MsgJoinTable \<Rightarrow> handleJoinTable rnd client msg gs
      | MsgLeaveSeat \<Rightarrow> handleLeaveSeat rnd client gs
      | MsgChangeName \<Rightarrow> handleChangeName rnd client msg gs
      | MsgKickPlayer \<Rightarrow> handleKickPlayer rnd client msg gs
      | MsgTransferHouse \<Rightarrow> handleTransferHouse rnd client msg gs
      | MsgStartGame \<Rightarrow> handleStartGame rnd client gs
      | MsgPlaceBid \<Rightarrow> handlePlaceBid rnd client msg gs
      | MsgSelectTrump \<Rightarrow> handleSelectTrump rnd client msg gs
      | MsgTakeKitty \<Rightarrow> handleTakeKitty rnd client msg gs
      | MsgDiscard \<Rightarrow> handleDiscard rnd client msg gs
      | MsgDiscardDraw \<Rightarrow> handleDiscardDraw rnd client msg gs
      | MsgPlayCard \<Rightarrow> handlePlayCard rnd client msg gs
      | MsgRejoin \<Rightarrow> handleRejoin msg gs
      | MsgNewHand \<Rightarrow> handleNewHand rnd client gs
      | MsgResetGame \<Rightarrow> handleResetGame rnd client gs
      | MsgOther name \<Rightarrow> Err (ErrMsg ''unknown_message'') gs)"

definition HandleDisconnect :: "Client \<Rightarrow> GameState \<Rightarrow> GameState" where
  "HandleDisconnect client gs =
     (if c_SeatIndex client \<ge> 0 \<and> c_SeatIndex client < 4
      then (case Players gs (c_SeatIndex client) of
              None \<Rightarrow> gs
            | Some p \<Rightarrow> gs\<lparr>Players := (Players gs)(c_SeatIndex client \<mapsto>
                           p\<lparr>Connected := False\<rparr>)\<rparr>)
      else gs)"

section \<open>Reachable game records\<close>

text \<open>
  The record starts as \<open>NewGameState(targetScore)\<close> and changes only inside
  \<open>HandleMessage\<close> and \<open>HandleDisconnect\<close>, one call at a time. A call that panics ends
  the process and leaves no record behind. The sending client is seated at one of the
  four seats or not at all, and \<open>rng.Shuffle\<close> permutes the deck it is given.
\<close>

definition wfClient :: "Client \<Rightarrow> bool" where
  "wfClient client = (- 1 \<le> c_SeatIndex client \<and> c_SeatIndex client \<le> 3)"

definition permShuffle :: "Rand \<Rightarrow> bool" where
  "permShuffle rnd = (mset (Shuffle rnd NewDeck) = mset NewDeck)"

inductive reachable :: "GameState \<Rightarrow> bool" where
  reach_init: "reachable (NewGameState targetScore)"
| reach_ok: "reachable gs \<Longrightarrow> wfClient client \<Longrightarrow> permShuffle rnd \<Longrightarrow>
     HandleMessage rnd client msg gs = Ok gs' \<Longrightarrow> reachable gs'"
| reach_err: "reachable gs \<Longrightarrow> wfClient client \<Longrightarrow> permShuffle rnd \<Longrightarrow>
     HandleMessage rnd client msg gs = Err e gs' \<Longrightarrow> reachable gs'"
| reach_disconnect: "reachable gs \<Longrightarrow> wfClient client \<Longrightarrow>
     reachable (HandleDisconnect client gs)"

section \<open>Notions of the specification, and example records\<close>

text \<open>A team's earned total: the count of the five categories (High, Low, Jack,
  Off-Jack, Game) awarded to it.\<close>

definition earned :: "ScoreResult \<Rightarrow> int \<Rightarrow> int" where
  "earned r team =
     (\<Sum>t \<leftarrow> [HighTeam r, LowTeam r, JackTeam r, OffJackTeam r, GameTeam r].
        if t = team then 1 else 0)"

text \<open>A hand in which team 0 bid 4 and took High, Jack and Game, team 1 Low.\<close>

definition setbackHand :: GameState where
  "setbackHand =
     (NewGameState 52)\<lparr>Phase := PhaseScoring, Trump := Some Spades, BidWinner := 0,
       WinningBid := 4,
       CompletedTricks :=
         [\<lparr>ct_Cards = [\<lparr>tc_Card = NewCard Spades Ace, tc_PlayerIndex = 0\<rparr>,
                       \<lparr>tc_Card = NewCard Spades Two, tc_PlayerIndex = 1\<rparr>,
                       \<lparr>tc_Card = NewCard Spades Jack, tc_PlayerIndex = 2\<rparr>,
                       \<lparr>tc_Card = NewCard Hearts Ten, tc_PlayerIndex = 3\<rparr>],
           ct_Winner = 0\<rparr>],
       CardsWon := (\<lambda>_. [])(0 := [NewCard Spades Ace, NewCard Spades Two,
                                    NewCard Spades Jack, NewCard Hearts Ten])\<rparr>"


definition trumpSuitPlays :: "Suit \<Rightarrow> CompletedTrick list \<Rightarrow> TrickCard list" where
  "trumpSuitPlays trump tricks = filter (\<lambda>tc. Suit (tc_Card tc) = trump) (playedCards tricks)"

definition holdsJack :: "Suit \<Rightarrow> CompletedTrick \<Rightarrow> bool" where
  "holdsJack suit trick =
     list_ex (\<lambda>tc. Suit (tc_Card tc) = suit \<and> Rank (tc_Card tc) = Jack) (ct_Cards trick)"

definition fixedRand :: Rand where
  "fixedRand = \<lparr>Shuffle = (\<lambda>d. d), GenerateSessionToken = ''token''\<rparr>"

definition seated :: "int \<Rightarrow> Card list \<Rightarrow> Player" where
  "seated i hand = \<lparr>Name = ''player'', SeatIndex = i, Hand = hand, SessionToken = ''token'',
                    Connected = True\<rparr>"

definition playAction :: "int \<Rightarrow> string \<Rightarrow> Action" where
  "playAction seat cardID = (zeroAction ActionPlayCard)\<lparr>PlayerIndex := seat, CardID := cardID\<rparr>"


text \<open>Trump is spades and seat 0, holding the jack of clubs, is to lead.\<close>

definition offJackToLead :: GameState where
  "offJackToLead =
     (NewGameState 52)\<lparr>Phase := PhasePlaying, Trump := Some Spades, CurrentPlayer := 0,
       Players := (\<lambda>_. None)(0 \<mapsto> seated 0 [NewCard Clubs Jack, NewCard Hearts Two]),
       CurrentTrick := Some \<lparr>Cards = [], Leader = 0, LeadSuit = Spades, Winner = 0\<rparr>\<rparr>"

text \<open>Trump is spades; seat 1 played the jack of clubs into a trick that seat 0 won.\<close>

definition offJackCaptured :: GameState where
  "offJackCaptured =
     (NewGameState 52)\<lparr>Phase := PhaseScoring, Trump := Some Spades, BidWinner := 0,
       WinningBid := 2,
       CompletedTricks :=
         [\<lparr>ct_Cards = [\<lparr>tc_Card = NewCard Spades Ace, tc_PlayerIndex = 0\<rparr>,
                       \<lparr>tc_Card = NewCard Clubs Jack, tc_PlayerIndex = 1\<rparr>,
                       \<lparr>tc_Card = NewCard Spades Two, tc_PlayerIndex = 2\<rparr>,
                       \<lparr>tc_Card = NewCard Hearts Ten, tc_PlayerIndex = 3\<rparr>],
           ct_Winner = 0\<rparr>],
       CardsWon := (\<lambda>_. [])(0 := [NewCard Spades Ace, NewCard Clubs Jack,
                                    NewCard Spades Two, NewCard Hearts Ten])\<rparr>"





text \<open>The record a call leaves behind when it does not panic.\<close>

definition outcome :: "result \<Rightarrow> GameState \<Rightarrow> bool" where
  "outcome r s' = (case r of Ok s \<Rightarrow> s' = s | Err e s \<Rightarrow> s' = s | Panic \<Rightarrow> False)"

text \<open>A step that keeps the bids, the dealer and the trump-broken flag.\<close>

definition frame :: "GameState \<Rightarrow> GameState \<Rightarrow> bool" where
  "frame s s' = (Bids s' = Bids s \<and> Dealer s' = Dealer s \<and> TrumpBroken s' = TrumpBroken s)"

text \<open>A step that leaves the bidding alone: it keeps the frame, does not enter the lobby
  or the bidding, and while bidding goes on it does not move the turn.\<close>

definition quiet :: "GameState \<Rightarrow> GameState \<Rightarrow> bool" where
  "quiet s s' =
     (frame s s'
      \<and> (Phase s' = PhaseBidding \<longrightarrow> Phase s = PhaseBidding \<and> CurrentPlayer s' = CurrentPlayer s)
      \<and> (Phase s' = PhaseLobby \<longrightarrow> Phase s = PhaseLobby))"

text \<open>The invariant of the bidding: the dealer is a seat; while bidding goes on fewer
  than four bids are in and the turn is the dealer's left-hand neighbour moved on by one
  seat per bid; a recorded amount is a pass or at least 2; four recorded bids are never
  four passes.\<close>

definition bidding_inv :: "GameState \<Rightarrow> bool" where
  "bidding_inv s =
     (inSeats (Dealer s)
      \<and> (Phase s = PhaseBidding \<longrightarrow>
            length (Bids s) < 4
          \<and> CurrentPlayer s = (Dealer s + 1 + int (length (Bids s))) mod 4)
      \<and> length (Bids s) \<le> 4
      \<and> list_all (\<lambda>b. Amount b = 0 \<or> 2 \<le> Amount b) (Bids s)
      \<and> (length (Bids s) = 4 \<longrightarrow> list_ex (\<lambda>b. Amount b \<noteq> 0) (Bids s)))"

text \<open>A step that keeps both the invariant of the bidding and a cleared trump-broken
  flag.\<close>

definition keeps :: "GameState \<Rightarrow> GameState \<Rightarrow> bool" where
  "keeps s s' = ((bidding_inv s \<longrightarrow> bidding_inv s') \<and> (\<not> TrumpBroken s \<longrightarrow> \<not> TrumpBroken s'))"

text \<open>The cards the record holds: the deck, the hands of the four seats, the kitty, the
  current trick and the completed tricks of the hand.\<close>

definition deckOf :: "Card list option \<Rightarrow> Card multiset" where
  "deckOf d = (case d of None \<Rightarrow> {#} | Some cards \<Rightarrow> mset cards)"

definition handOf :: "Player option \<Rightarrow> Card multiset" where
  "handOf p = (case p of None \<Rightarrow> {#} | Some player \<Rightarrow> mset (Hand player))"

definition handsOf :: "(int \<Rightarrow> Player option) \<Rightarrow> Card multiset" where
  "handsOf players = handOf (players 0) + handOf (players 1) + handOf (players 2)
                     + handOf (players 3)"


definition trickOf :: "Trick option \<Rightarrow> Card multiset" where
  "trickOf t = (case t of None \<Rightarrow> {#} | Some trick \<Rightarrow> mset (map tc_Card (Cards trick)))"

definition completedOf :: "CompletedTrick list \<Rightarrow> Card multiset" where
  "completedOf tricks = mset (map tc_Card (playedCards tricks))"

definition cardsInPlay :: "GameState \<Rightarrow> Card multiset" where
  "cardsInPlay s = deckOf (Deck s) + handsOf (Players s) + mset (Kitty s)
                   + trickOf (CurrentTrick s) + completedOf (CompletedTricks s)"

text \<open>The phases of a hand that is being played.\<close>

definition duringHand :: "GameState \<Rightarrow> bool" where
  "duringHand s = (Phase s = PhaseBidding \<or> Phase s = PhaseKitty \<or> Phase s = PhaseDiscard
                   \<or> Phase s = PhasePlaying)"


text \<open>A step that deals no new cards: it does not enter the lobby, it enters no phase of
  a hand from outside one, and during a hand it adds no card to the record.\<close>

definition tame :: "GameState \<Rightarrow> GameState \<Rightarrow> bool" where
  "tame s s' =
     ((Phase s' = PhaseLobby \<longrightarrow> Phase s = PhaseLobby \<and> CurrentTrick s' = CurrentTrick s)
      \<and> (duringHand s' \<longrightarrow> duringHand s \<and> cardsInPlay s' \<subseteq># cardsInPlay s))"

text \<open>A client seated at \<open>i\<close> (\<open>-1\<close>: a spectator), and a message of type \<open>t\<close> with
  every other field at its zero value.\<close>

definition seatClient :: "int \<Rightarrow> Client" where
  "seatClient i = \<lparr>c_SeatIndex = i, hubSeats = (\<lambda>_. None)\<rparr>"

definition message :: "MessageType \<Rightarrow> ClientMessage" where
  "message t = \<lparr>m_Type = t, m_SeatIndex = None, m_PlayerName = [], m_Amount = None,
                 m_CardID = [], m_CardIDs = None, m_TrumpSuit = [], m_Token = []\<rparr>"

text \<open>A run of messages through \<open>HandleMessage\<close>, with the deck left in the order
  \<open>NewDeck\<close> builds it; \<open>None\<close> when a message panics.\<close>

fun play :: "(Client \<times> ClientMessage) list \<Rightarrow> GameState \<Rightarrow> GameState option" where
  "play [] gs = Some gs"
| "play ((client, msg) # rest) gs =
     (case HandleMessage fixedRand client msg gs of
        Panic \<Rightarrow> None
      | Ok gs1 \<Rightarrow> play rest gs1
      | Err e gs1 \<Rightarrow> play rest gs1)"

definition joinMsg :: "int \<Rightarrow> string \<Rightarrow> Client \<times> ClientMessage" where
  "joinMsg i name =
     (seatClient (- 1), (message MsgJoinTable)\<lparr>m_SeatIndex := Some i, m_PlayerName := name\<rparr>)"

definition passMsg :: "int \<Rightarrow> Client \<times> ClientMessage" where
  "passMsg i = (seatClient i, (message MsgPlaceBid)\<lparr>m_Amount := Some 0\<rparr>)"

definition fourPlayers :: "int \<Rightarrow> Player option" where
  "fourPlayers =
     (\<lambda>_. None)
       (0 \<mapsto> \<lparr>Name = ''north'', SeatIndex = 0, Hand = [], SessionToken = ''token'',
               Connected = True\<rparr>,
        1 \<mapsto> \<lparr>Name = ''east'', SeatIndex = 1, Hand = [], SessionToken = ''token'',
               Connected = True\<rparr>,
        2 \<mapsto> \<lparr>Name = ''south'', SeatIndex = 2, Hand = [], SessionToken = ''token'',
               Connected = True\<rparr>,
        3 \<mapsto> \<lparr>Name = ''west'', SeatIndex = 3, Hand = [], SessionToken = ''token'',
               Connected = True\<rparr>)"

text \<open>The table once north, east, south and west have joined in that order: north is
  the house and the dealer.\<close>

definition lobbyDemo :: GameState where
  "lobbyDemo = (NewGameState 52)\<lparr>Players := fourPlayers, House := 0\<rparr>"

text \<open>The same four players when east joined first: east is the house and the dealer.\<close>

definition lobbyEast :: GameState where
  "lobbyEast =
     (NewGameState 52)\<lparr>
       Players := (\<lambda>_. None)
         (1 \<mapsto> \<lparr>Name = ''east'', SeatIndex = 1, Hand = [], SessionToken = ''token'',
                 Connected = True\<rparr>,
          0 \<mapsto> \<lparr>Name = ''north'', SeatIndex = 0, Hand = [], SessionToken = ''token'',
                 Connected = True\<rparr>,
          2 \<mapsto> \<lparr>Name = ''south'', SeatIndex = 2, Hand = [], SessionToken = ''token'',
                 Connected = True\<rparr>,
          3 \<mapsto> \<lparr>Name = ''west'', SeatIndex = 3, Hand = [], SessionToken = ''token'',
                 Connected = True\<rparr>),
       Dealer := 1, House := 1\<rparr>"

definition dealtPlayers :: "int \<Rightarrow> Player option" where
  "dealtPlayers =
     fourPlayers
       (0 \<mapsto> \<lparr>Name = ''north'', SeatIndex = 0, Hand = take 6 NewDeck,
               SessionToken = ''token'', Connected = True\<rparr>,
        1 \<mapsto> \<lparr>Name = ''east'', SeatIndex = 1, Hand = take 6 (drop 6 NewDeck),
               SessionToken = ''token'', Connected = True\<rparr>,
        2 \<mapsto> \<lparr>Name = ''south'', SeatIndex = 2, Hand = take 6 (drop 12 NewDeck),
               SessionToken = ''token'', Connected = True\<rparr>,
        3 \<mapsto> \<lparr>Name = ''west'', SeatIndex = 3, Hand = take 6 (drop 18 NewDeck),
               SessionToken = ''token'', Connected = True\<rparr>)"

text \<open>\<open>lobbyDemo\<close> after start-game: six cards to each seat and to the kitty, east to
  bid first.\<close>

definition dealtDemo :: GameState where
  "dealtDemo =
     lobbyDemo\<lparr>Phase := PhaseBidding, Players := dealtPlayers,
       Deck := Some (drop 30 NewDeck), CurrentPlayer := 1,
       Kitty := take 6 (drop 24 NewDeck)\<rparr>"

text \<open>\<open>dealtDemo\<close> after east, south and west have passed: the dealer is to bid.\<close>

definition biddingDemo :: GameState where
  "biddingDemo =
     dealtDemo\<lparr>Bids := [\<lparr>b_PlayerIndex = 1, Amount = 0\<rparr>, \<lparr>b_PlayerIndex = 2, Amount = 0\<rparr>,
                         \<lparr>b_PlayerIndex = 3, Amount = 0\<rparr>],
       CurrentPlayer := 0\<rparr>"

text \<open>\<open>biddingDemo\<close> after the dealer has passed too: the pass is recorded as a bid of
  2 and the dealer holds the kitty phase.\<close>

definition kittyDemo :: GameState where
  "kittyDemo =
     biddingDemo\<lparr>Bids := Bids biddingDemo @ [\<lparr>b_PlayerIndex = 0, Amount = 2\<rparr>],
       BidWinner := 0, WinningBid := 2, CurrentPlayer := 0, Phase := PhaseKitty\<rparr>"

text \<open>\<open>kittyDemo\<close> after the bid winner has taken nothing from the kitty.\<close>

definition kittyPassed :: GameState where
  "kittyPassed = kittyDemo\<lparr>Kitty := []\<rparr>"

text \<open>The bid winner asks for the king of hearts, which is in the kitty, and for a card
  that is not; \<open>kittyHalfTaken\<close> is the record this request leaves behind.\<close>

definition takeKingAndJoker :: Action where
  "takeKingAndJoker =
     (zeroAction ActionTakeKitty)\<lparr>PlayerIndex := 0,
                                   CardIDs := Some [''king_hearts'', ''joker'']\<rparr>"

definition kittyHalfTaken :: GameState where
  "kittyHalfTaken =
     kittyDemo\<lparr>Kitty := [NewCard Hearts Ace, NewCard Diamonds Two, NewCard Diamonds Three,
                         NewCard Diamonds Four, NewCard Diamonds Five],
       Players := dealtPlayers
         (0 \<mapsto> \<lparr>Name = ''north'', SeatIndex = 0,
                 Hand = take 6 NewDeck @ [NewCard Hearts King],
                 SessionToken = ''token'', Connected = True\<rparr>)\<rparr>"

section \<open>Card ranking\<close>

lemma OffSuit_neq: "OffSuit t \<noteq> t"
  by (cases t) simp_all

lemma OffSuit_invol: "OffSuit (OffSuit t) = t"
  by (cases t) simp_all

lemma IsOffJack_IsTrump: "IsOffJack c t \<Longrightarrow> IsTrump c t"
  by (simp add: IsOffJack_def IsTrump_def)

lemma IsTrump_iff: "IsTrump c t \<longleftrightarrow> Suit c = t \<or> IsOffJack c t"
  by (simp add: IsOffJack_def IsTrump_def)

text \<open>
  C8. \<open>Beats(a, b, trump, lead)\<close> for cards of the deck's ranks: a trump beats a
  non-trump, a non-trump never beats a trump, two trumps compare by the trump-order key,
  two non-trumps of one suit compare by rank, and between two non-trumps of different
  suits the first wins exactly when it is of the lead suit. The key of the off-jack lies
  strictly between the key of the ten of trump and the key of the jack of trump.
\<close>

theorem C8_Beats_cases:
  assumes "Rank a \<in> set AllRanks" and "Rank b \<in> set AllRanks"
  shows "(IsTrump a trump \<and> \<not> IsTrump b trump \<longrightarrow> Beats a b trump lead)
       \<and> (\<not> IsTrump a trump \<and> IsTrump b trump \<longrightarrow> \<not> Beats a b trump lead)
       \<and> (IsTrump a trump \<and> IsTrump b trump \<longrightarrow>
            Beats a b trump lead = (TrumpRank a trump > TrumpRank b trump))
       \<and> (\<not> IsTrump a trump \<and> \<not> IsTrump b trump \<and> Suit a = Suit b \<longrightarrow>
            Beats a b trump lead = (Rank a > Rank b))
       \<and> (\<not> IsTrump a trump \<and> \<not> IsTrump b trump \<and> Suit a \<noteq> Suit b \<longrightarrow>
            Beats a b trump lead = (Suit a = lead))
       \<and> (IsOffJack a trump \<longrightarrow>
            TrumpRank (NewCard trump Ten) trump < TrumpRank a trump
          \<and> TrumpRank a trump < TrumpRank (NewCard trump Jack) trump)"
proof -
  have nj: "\<not> IsOffJack (NewCard trump r) trump" for r
    by (simp add: IsOffJack_def NewCard_def OffSuit_neq [symmetric])
  have key: "IsOffJack a trump \<longrightarrow>
       TrumpRank (NewCard trump Ten) trump < TrumpRank a trump
     \<and> TrumpRank a trump < TrumpRank (NewCard trump Jack) trump"
    using nj by (simp add: TrumpRank_def NewCard_def)
  have cases: "(IsTrump a trump \<and> \<not> IsTrump b trump \<longrightarrow> Beats a b trump lead)
       \<and> (\<not> IsTrump a trump \<and> IsTrump b trump \<longrightarrow> \<not> Beats a b trump lead)
       \<and> (IsTrump a trump \<and> IsTrump b trump \<longrightarrow>
            Beats a b trump lead = (TrumpRank a trump > TrumpRank b trump))
       \<and> (\<not> IsTrump a trump \<and> \<not> IsTrump b trump \<and> Suit a = Suit b \<longrightarrow>
            Beats a b trump lead = (Rank a > Rank b))
       \<and> (\<not> IsTrump a trump \<and> \<not> IsTrump b trump \<and> Suit a \<noteq> Suit b \<longrightarrow>
            Beats a b trump lead = (Suit a = lead))"
    by (simp add: Beats_def Let_def)
  from cases key show ?thesis by blast
qed

theorem C8_Beats_cases_witness:
  "Rank (NewCard Clubs Jack) \<in> set AllRanks \<and> Rank (NewCard Spades Ten) \<in> set AllRanks
   \<and> IsTrump (NewCard Clubs Jack) Spades \<and> IsTrump (NewCard Spades Ten) Spades
   \<and> IsOffJack (NewCard Clubs Jack) Spades
   \<and> Beats (NewCard Clubs Jack) (NewCard Spades Ten) Spades Hearts
   \<and> TrumpRank (NewCard Clubs Jack) Spades < TrumpRank (NewCard Spades Jack) Spades"
  using C8_Beats_cases [of "NewCard Clubs Jack" "NewCard Spades Ten" Spades Hearts]
  by (simp add: NewCard_def AllRanks_def IsTrump_def IsOffJack_def TrumpRank_def)


section \<open>Scoring\<close>

lemma addPoint_fields [simp]:
  "HighTeam (addPoint t r) = HighTeam r" "LowTeam (addPoint t r) = LowTeam r"
  "JackTeam (addPoint t r) = JackTeam r" "OffJackTeam (addPoint t r) = OffJackTeam r"
  "GameTeam (addPoint t r) = GameTeam r" "BidderTeam (addPoint t r) = BidderTeam r"
  "sr_BidAmount (addPoint t r) = sr_BidAmount r"
  "Team0Points (addPoint t r) = Team0Points r + (if t = 0 then 1 else 0)"
  "Team1Points (addPoint t r) = Team1Points r + (if t = 1 then 1 else 0)"
  by (simp_all add: addPoint_def)

lemma totalPoints_fields:
  "HighTeam (totalPoints r) = HighTeam r" "LowTeam (totalPoints r) = LowTeam r"
  "JackTeam (totalPoints r) = JackTeam r" "OffJackTeam (totalPoints r) = OffJackTeam r"
  "GameTeam (totalPoints r) = GameTeam r" "BidderTeam (totalPoints r) = BidderTeam r"
  "sr_BidAmount (totalPoints r) = sr_BidAmount r"
  "Team0Points (totalPoints r) = Team0Points r + earned r 0"
  "Team1Points (totalPoints r) = Team1Points r + earned r 1"
  by (simp_all add: totalPoints_def Let_def earned_def)

lemma scoreChanges_fields:
  "HighTeam (scoreChanges r) = HighTeam r" "LowTeam (scoreChanges r) = LowTeam r"
  "JackTeam (scoreChanges r) = JackTeam r" "OffJackTeam (scoreChanges r) = OffJackTeam r"
  "GameTeam (scoreChanges r) = GameTeam r" "BidderTeam (scoreChanges r) = BidderTeam r"
  "sr_BidAmount (scoreChanges r) = sr_BidAmount r"
  "Team0Points (scoreChanges r) = Team0Points r"
  "Team1Points (scoreChanges r) = Team1Points r"
  by (simp_all add: scoreChanges_def Let_def)

lemma scoreChanges_change:
  "Team0Change (scoreChanges r) =
     (if (if BidderTeam r = 1 then Team1Points r else Team0Points r) \<ge> sr_BidAmount r
      then Team0Points r
      else if BidderTeam r = 0 then - sr_BidAmount r else Team0Points r)"
  "Team1Change (scoreChanges r) =
     (if (if BidderTeam r = 1 then Team1Points r else Team0Points r) \<ge> sr_BidAmount r
      then Team1Points r
      else if BidderTeam r = 0 then Team1Points r else - sr_BidAmount r)"
  by (simp_all add: scoreChanges_def Let_def)

lemma early_fields:
  "Team0Points (scoreGame s r) = Team0Points r" "Team1Points (scoreGame s r) = Team1Points r"
  "BidderTeam (scoreGame s r) = BidderTeam r" "sr_BidAmount (scoreGame s r) = sr_BidAmount r"
  "Team0Points (scoreJacks t s r) = Team0Points r" "Team1Points (scoreJacks t s r) = Team1Points r"
  "BidderTeam (scoreJacks t s r) = BidderTeam r" "sr_BidAmount (scoreJacks t s r) = sr_BidAmount r"
  "Team0Points (scoreHighLow t s r) = Team0Points r" "Team1Points (scoreHighLow t s r) = Team1Points r"
  "BidderTeam (scoreHighLow t s r) = BidderTeam r" "sr_BidAmount (scoreHighLow t s r) = sr_BidAmount r"
  by (simp_all add: scoreGame_def scoreJacks_def scoreHighLow_def Let_def split: option.splits prod.splits)

lemma earned_cong:
  "HighTeam r = HighTeam r' \<Longrightarrow> LowTeam r = LowTeam r' \<Longrightarrow> JackTeam r = JackTeam r' \<Longrightarrow>
   OffJackTeam r = OffJackTeam r' \<Longrightarrow> GameTeam r = GameTeam r' \<Longrightarrow> earned r t = earned r' t"
  by (simp add: earned_def)

lemma earned_final: "earned (scoreChanges (totalPoints r)) t = earned r t"
  by (rule earned_cong) (simp_all add: scoreChanges_fields totalPoints_fields)

lemma GetTeam01: "GetTeamForPlayer p = 0 \<or> GetTeamForPlayer p = 1"
  by (simp add: GetTeamForPlayer_def)

text \<open>
  C3. For a completed hand (trump is set: no card can be played without it), with
  \<open>earned\<close> the count of the five categories awarded to a team: when the bidding
  team's earned total reaches the winning bid, each team's change is its own earned total;
  when it is strictly less, the bidding team's change is minus the bid and the other
  team's change is its own earned total. \<open>ApplyScore\<close> adds each change to the team's
  score, which can go below zero (the witness ends at \<open>-4\<close>).
\<close>

theorem C3_setback:
  assumes "Trump s \<noteq> None"
  shows "let r = CalculateScore s; bid = WinningBid s; bidder = GetTeamForPlayer (BidWinner s);
             s' = ApplyScore s r
         in (earned r bidder \<ge> bid \<longrightarrow>
               Team0Change r = earned r 0 \<and> Team1Change r = earned r 1)
          \<and> (earned r bidder < bid \<longrightarrow>
               (bidder = 0 \<longrightarrow> Team0Change r = - bid \<and> Team1Change r = earned r 1)
             \<and> (bidder = 1 \<longrightarrow> Team0Change r = earned r 0 \<and> Team1Change r = - bid))
          \<and> Score (Teams s' 0) = Score (Teams s 0) + Team0Change r
          \<and> Score (Teams s' 1) = Score (Teams s 1) + Team1Change r"
proof -
  from assms obtain trump where t: "Trump s = Some trump" by auto
  define r0 where "r0 = scoreGame s (scoreJacks trump s (scoreHighLow trump s
      \<lparr>HighTeam = - 1, HighCard = [], LowTeam = - 1, LowCard = [],
       JackTeam = - 1, OffJackTeam = - 1, GameTeam = - 1,
       Team0Points = 0, Team1Points = 0,
       BidderTeam = GetTeamForPlayer (BidWinner s),
       sr_BidAmount = WinningBid s, BidMade = False,
       Team0Change = 0, Team1Change = 0, sr_GamePoints = (0, 0)\<rparr>))"
  have r: "CalculateScore s = scoreChanges (totalPoints r0)"
    by (simp add: CalculateScore_def t r0_def)
  have b: "BidderTeam r0 = GetTeamForPlayer (BidWinner s)" "sr_BidAmount r0 = WinningBid s"
    "Team0Points r0 = 0" "Team1Points r0 = 0"
    by (simp_all add: r0_def early_fields)
  have e: "earned (CalculateScore s) t = earned r0 t" for t
    by (simp add: r earned_final)
  have c0: "Team0Change (CalculateScore s) =
     (if earned r0 (GetTeamForPlayer (BidWinner s)) \<ge> WinningBid s then earned r0 0
      else if GetTeamForPlayer (BidWinner s) = 0 then - WinningBid s else earned r0 0)"
    using GetTeam01 [of "BidWinner s"]
    by (auto simp: r scoreChanges_change totalPoints_fields b)
  have c1: "Team1Change (CalculateScore s) =
     (if earned r0 (GetTeamForPlayer (BidWinner s)) \<ge> WinningBid s then earned r0 1
      else if GetTeamForPlayer (BidWinner s) = 0 then earned r0 1 else - WinningBid s)"
    using GetTeam01 [of "BidWinner s"]
    by (auto simp: r scoreChanges_change totalPoints_fields b)
  have a: "Score (Teams (ApplyScore s x) 0) = Score (Teams s 0) + Team0Change x"
    "Score (Teams (ApplyScore s x) 1) = Score (Teams s 1) + Team1Change x" for x
    by (simp_all add: ApplyScore_def)
  show ?thesis
    unfolding Let_def using c0 c1 GetTeam01 [of "BidWinner s"] by (auto simp: e a)
qed

theorem C3_setback_witness:
  "Trump setbackHand \<noteq> None
   \<and> earned (CalculateScore setbackHand) 0 = 3
   \<and> Team0Change (CalculateScore setbackHand) = - 4
   \<and> Team1Change (CalculateScore setbackHand) = 1
   \<and> Score (Teams (ApplyScore setbackHand (CalculateScore setbackHand)) 0) = - 4"
proof -
  have t: "Trump setbackHand \<noteq> None" by (simp add: setbackHand_def)
  have b: "WinningBid setbackHand = 4" "GetTeamForPlayer (BidWinner setbackHand) = 0"
    "Score (Teams setbackHand 0) = 0"
    by (simp_all add: setbackHand_def GetTeamForPlayer_def NewGameState_def)
  have e: "earned (CalculateScore setbackHand) 0 = 3"
       "earned (CalculateScore setbackHand) 1 = 1"
    by (simp_all add: setbackHand_def NewGameState_def CalculateScore_def scoreChanges_def
      totalPoints_def addPoint_def scoreGame_def scoreJacks_def scoreHighLow_def findHighLow_def
      highLowStep_def playedCards_def sumGamePoints_def GamePoints_def NewCard_def
      GetTeamForPlayer_def earned_def Let_def)
  from C3_setback [OF t] show ?thesis
    unfolding Let_def b e using t by simp
qed

section \<open>Following suit\<close>


lemma findCard_Some: "findCard cid hand = Some i \<Longrightarrow> i < length hand \<and> ID (hand ! i) = cid"
  by (induction hand arbitrary: i) (auto split: if_splits option.splits)



section \<open>The off-jack\<close>

lemma highLow_skip:
  "Suit (tc_Card tc) \<noteq> trump \<Longrightarrow> highLowStep trump acc tc = acc"
  by (cases acc) (simp add: highLowStep_def)

lemma foldl_highLow_filter:
  "foldl (highLowStep trump) acc plays
     = foldl (highLowStep trump) acc (filter (\<lambda>tc. Suit (tc_Card tc) = trump) plays)"
  by (induction plays arbitrary: acc) (simp_all add: highLow_skip)

lemma findHighLow_trumpSuitPlays:
  "findHighLow trump tricks = foldl (highLowStep trump) (None, None) (trumpSuitPlays trump tricks)"
  unfolding findHighLow_def trumpSuitPlays_def by (rule foldl_highLow_filter)

lemma capturedJack_find:
  "capturedJack suit tricks =
     (case find (holdsJack suit) tricks of
        None \<Rightarrow> - 1
      | Some trick \<Rightarrow> GetTeamForPlayer (ct_Winner trick))"
  by (induction tricks) (simp_all add: holdsJack_def)

lemma CalculateScore_jacks:
  assumes "Trump s = Some trump"
  shows "JackTeam (CalculateScore s) = capturedJack trump (CompletedTricks s)"
    and "OffJackTeam (CalculateScore s) = capturedJack (OffSuit trump) (CompletedTricks s)"
  using assms
  by (simp_all add: CalculateScore_def scoreChanges_fields totalPoints_fields
        scoreGame_def scoreJacks_def Let_def)

lemma CalculateScore_highLow:
  assumes "Trump s = Some trump"
  shows "HighTeam (CalculateScore s) =
           (case fst (findHighLow trump (CompletedTricks s)) of
              None \<Rightarrow> - 1 | Some h \<Rightarrow> GetTeamForPlayer (tc_PlayerIndex h))"
    and "LowTeam (CalculateScore s) =
           (case snd (findHighLow trump (CompletedTricks s)) of
              None \<Rightarrow> - 1 | Some l \<Rightarrow> GetTeamForPlayer (tc_PlayerIndex l))"
  using assms
  by (simp_all add: CalculateScore_def scoreChanges_fields totalPoints_fields
        scoreGame_def scoreJacks_def scoreHighLow_def Let_def
        split: prod.splits option.splits)

lemma applyPlayCard_lead:
  assumes "Phase s = PhasePlaying"
    and "PlayerIndex a = CurrentPlayer s"
    and "inSeats (CurrentPlayer s)"
    and "Players s (CurrentPlayer s) = Some p"
    and "Trump s = Some trump"
    and "CurrentTrick s = Some trick"
    and "Cards trick = []"
    and "findCard (CardID a) (Hand p) = Some i"
  shows "\<exists>s'. applyPlayCard s a = Ok s'
           \<and> CurrentTrick s' = Some (trick\<lparr>
                LeadSuit := (if IsTrump (Hand p ! i) trump then trump else Suit (Hand p ! i)),
                Cards := [\<lparr>tc_Card = Hand p ! i, tc_PlayerIndex = CurrentPlayer s\<rparr>]\<rparr>)"
  using assms by (simp add: applyPlayCard_def Let_def)

text \<open>
  C5. For every trump suit and every off-jack \<open>c\<close> of it: \<open>c\<close> is a trump though not of
  the trump suit; leading it sets the lead suit of the trick to trump; High and Low are
  found among the plays of the trump suit alone, which never include \<open>c\<close>; the Off-Jack
  point goes to the team of the winner of the (first) completed trick that holds the jack
  of the off suit, and the Jack point is decided by the jack of the trump suit only.
\<close>

theorem C5_off_jack:
  assumes "IsOffJack c trump"
  shows "IsTrump c trump
       \<and> Suit c \<noteq> trump
       \<and> (Phase s = PhasePlaying \<and> Type a = ActionPlayCard \<and> PlayerIndex a = CurrentPlayer s
            \<and> inSeats (CurrentPlayer s) \<and> Players s (CurrentPlayer s) = Some p
            \<and> Trump s = Some trump \<and> CurrentTrick s = Some trick \<and> Cards trick = []
            \<and> findCard (CardID a) (Hand p) = Some i \<and> Hand p ! i = c
          \<longrightarrow> (\<exists>s' trick'. ApplyAction rnd s a = Ok s' \<and> CurrentTrick s' = Some trick'
                  \<and> LeadSuit trick' = trump
                  \<and> Cards trick' = [\<lparr>tc_Card = c, tc_PlayerIndex = CurrentPlayer s\<rparr>]))
       \<and> (Trump g = Some trump
          \<longrightarrow> (let r = CalculateScore g;
                    (high, low) = foldl (highLowStep trump) (None, None)
                                    (trumpSuitPlays trump (CompletedTricks g))
                in (\<forall>x \<in> set (trumpSuitPlays trump (CompletedTricks g)). tc_Card x \<noteq> c)
                 \<and> HighTeam r = (case high of None \<Rightarrow> - 1
                                  | Some h \<Rightarrow> GetTeamForPlayer (tc_PlayerIndex h))
                 \<and> LowTeam r = (case low of None \<Rightarrow> - 1
                                 | Some l \<Rightarrow> GetTeamForPlayer (tc_PlayerIndex l))
                 \<and> OffJackTeam r =
                     (case find (holdsJack (OffSuit trump)) (CompletedTricks g) of
                        None \<Rightarrow> - 1 | Some t \<Rightarrow> GetTeamForPlayer (ct_Winner t))
                 \<and> JackTeam r =
                     (case find (holdsJack trump) (CompletedTricks g) of
                        None \<Rightarrow> - 1 | Some t \<Rightarrow> GetTeamForPlayer (ct_Winner t))))"
proof -
  have t: "IsTrump c trump" using assms by (rule IsOffJack_IsTrump)
  have n: "Suit c \<noteq> trump" using assms OffSuit_neq [of trump] by (simp add: IsOffJack_def)
  have lead: "Phase s = PhasePlaying \<and> Type a = ActionPlayCard \<and> PlayerIndex a = CurrentPlayer s
            \<and> inSeats (CurrentPlayer s) \<and> Players s (CurrentPlayer s) = Some p
            \<and> Trump s = Some trump \<and> CurrentTrick s = Some trick \<and> Cards trick = []
            \<and> findCard (CardID a) (Hand p) = Some i \<and> Hand p ! i = c
          \<longrightarrow> (\<exists>s' trick'. ApplyAction rnd s a = Ok s' \<and> CurrentTrick s' = Some trick'
                  \<and> LeadSuit trick' = trump
                  \<and> Cards trick' = [\<lparr>tc_Card = c, tc_PlayerIndex = CurrentPlayer s\<rparr>])"
  proof (intro impI, elim conjE)
    assume h: "Phase s = PhasePlaying" "Type a = ActionPlayCard"
      "PlayerIndex a = CurrentPlayer s" "inSeats (CurrentPlayer s)"
      "Players s (CurrentPlayer s) = Some p" "Trump s = Some trump"
      "CurrentTrick s = Some trick" "Cards trick = []"
      "findCard (CardID a) (Hand p) = Some i" "Hand p ! i = c"
    from applyPlayCard_lead [OF h(1) h(3-9)] t h(2) h(10)
    show "\<exists>s' trick'. ApplyAction rnd s a = Ok s' \<and> CurrentTrick s' = Some trick'
                  \<and> LeadSuit trick' = trump
                  \<and> Cards trick' = [\<lparr>tc_Card = c, tc_PlayerIndex = CurrentPlayer s\<rparr>]"
      by (auto simp: ApplyAction_def)
  qed
  have score: "Trump g = Some trump
          \<longrightarrow> (let r = CalculateScore g;
                    (high, low) = foldl (highLowStep trump) (None, None)
                                    (trumpSuitPlays trump (CompletedTricks g))
                in (\<forall>x \<in> set (trumpSuitPlays trump (CompletedTricks g)). tc_Card x \<noteq> c)
                 \<and> HighTeam r = (case high of None \<Rightarrow> - 1
                                  | Some h \<Rightarrow> GetTeamForPlayer (tc_PlayerIndex h))
                 \<and> LowTeam r = (case low of None \<Rightarrow> - 1
                                 | Some l \<Rightarrow> GetTeamForPlayer (tc_PlayerIndex l))
                 \<and> OffJackTeam r =
                     (case find (holdsJack (OffSuit trump)) (CompletedTricks g) of
                        None \<Rightarrow> - 1 | Some t \<Rightarrow> GetTeamForPlayer (ct_Winner t))
                 \<and> JackTeam r =
                     (case find (holdsJack trump) (CompletedTricks g) of
                        None \<Rightarrow> - 1 | Some t \<Rightarrow> GetTeamForPlayer (ct_Winner t)))"
  proof
    assume g: "Trump g = Some trump"
    have m: "\<forall>x \<in> set (trumpSuitPlays trump (CompletedTricks g)). tc_Card x \<noteq> c"
      using n by (auto simp: trumpSuitPlays_def)
    show "let r = CalculateScore g;
                    (high, low) = foldl (highLowStep trump) (None, None)
                                    (trumpSuitPlays trump (CompletedTricks g))
                in (\<forall>x \<in> set (trumpSuitPlays trump (CompletedTricks g)). tc_Card x \<noteq> c)
                 \<and> HighTeam r = (case high of None \<Rightarrow> - 1
                                  | Some h \<Rightarrow> GetTeamForPlayer (tc_PlayerIndex h))
                 \<and> LowTeam r = (case low of None \<Rightarrow> - 1
                                 | Some l \<Rightarrow> GetTeamForPlayer (tc_PlayerIndex l))
                 \<and> OffJackTeam r =
                     (case find (holdsJack (OffSuit trump)) (CompletedTricks g) of
                        None \<Rightarrow> - 1 | Some t \<Rightarrow> GetTeamForPlayer (ct_Winner t))
                 \<and> JackTeam r =
                     (case find (holdsJack trump) (CompletedTricks g) of
                        None \<Rightarrow> - 1 | Some t \<Rightarrow> GetTeamForPlayer (ct_Winner t))"
      using m
      by (simp add: Let_def CalculateScore_jacks [OF g] CalculateScore_highLow [OF g]
            capturedJack_find findHighLow_trumpSuitPlays split: prod.splits)
  qed
  from t n lead score show ?thesis by blast
qed

lemmas example_defs = NewGameState_def seated_def playAction_def zeroAction_def NewCard_def
  Rank_String_def showInt_def showNat.simps digit_char_def inSeats_def


theorem C5_off_jack_witness:
  "IsOffJack (NewCard Clubs Jack) Spades
   \<and> IsTrump (NewCard Clubs Jack) Spades
   \<and> Phase offJackToLead = PhasePlaying
   \<and> Trump offJackToLead = Some Spades
   \<and> findCard (CardID (playAction 0 ''jack_clubs''))
        (Hand (seated 0 [NewCard Clubs Jack, NewCard Hearts Two])) = Some 0
   \<and> (\<exists>s' trick'. ApplyAction fixedRand offJackToLead (playAction 0 ''jack_clubs'') = Ok s'
         \<and> CurrentTrick s' = Some trick' \<and> LeadSuit trick' = Spades)
   \<and> Trump offJackCaptured = Some Spades
   \<and> HighTeam (CalculateScore offJackCaptured) = 0
   \<and> LowTeam (CalculateScore offJackCaptured) = 0
   \<and> OffJackTeam (CalculateScore offJackCaptured) = 0
   \<and> JackTeam (CalculateScore offJackCaptured) = - 1"
proof -
  let ?c = "NewCard Clubs Jack"
  let ?p = "seated 0 [NewCard Clubs Jack, NewCard Hearts Two]"
  let ?t = "\<lparr>Cards = [], Leader = 0, LeadSuit = Spades, Winner = 0\<rparr>"
  let ?a = "playAction 0 ''jack_clubs''"
  have o: "IsOffJack ?c Spades" by (simp add: IsOffJack_def NewCard_def)
  have h: "Phase offJackToLead = PhasePlaying \<and> Type ?a = ActionPlayCard
    \<and> PlayerIndex ?a = CurrentPlayer offJackToLead \<and> inSeats (CurrentPlayer offJackToLead)
    \<and> Players offJackToLead (CurrentPlayer offJackToLead) = Some ?p
    \<and> Trump offJackToLead = Some Spades
    \<and> CurrentTrick offJackToLead = Some ?t \<and> Cards ?t = []
    \<and> findCard (CardID ?a) (Hand ?p) = Some 0 \<and> Hand ?p ! 0 = ?c"
    by (simp add: offJackToLead_def example_defs)
  have g: "Trump offJackCaptured = Some Spades" by (simp add: offJackCaptured_def)
  have v: "foldl (highLowStep Spades) (None, None)
             (trumpSuitPlays Spades (CompletedTricks offJackCaptured))
           = (Some \<lparr>tc_Card = NewCard Spades Ace, tc_PlayerIndex = 0\<rparr>,
              Some \<lparr>tc_Card = NewCard Spades Two, tc_PlayerIndex = 2\<rparr>)"
    "find (holdsJack Clubs) (CompletedTricks offJackCaptured)
       = Some (hd (CompletedTricks offJackCaptured))"
    "find (holdsJack Spades) (CompletedTricks offJackCaptured) = None"
    "ct_Winner (hd (CompletedTricks offJackCaptured)) = 0"
    by (simp_all add: offJackCaptured_def trumpSuitPlays_def playedCards_def highLowStep_def
          holdsJack_def NewCard_def)
  from C5_off_jack [OF o, of offJackToLead ?a ?p ?t 0 fixedRand offJackCaptured] h g
  have "IsTrump ?c Spades
    \<and> (\<exists>s' trick'. ApplyAction fixedRand offJackToLead ?a = Ok s'
         \<and> CurrentTrick s' = Some trick' \<and> LeadSuit trick' = Spades)
    \<and> HighTeam (CalculateScore offJackCaptured) = 0
    \<and> LowTeam (CalculateScore offJackCaptured) = 0
    \<and> OffJackTeam (CalculateScore offJackCaptured) = 0
    \<and> JackTeam (CalculateScore offJackCaptured) = - 1"
    by (auto simp: GetTeamForPlayer_def Let_def v)
  with o h g show ?thesis by blast
qed

section \<open>Pending discards\<close>














lemma NextPlayer_values:
  "NextPlayer 0 = 1" "NextPlayer 1 = 2" "NextPlayer 2 = 3" "NextPlayer 3 = 0"
  by (simp_all add: NextPlayer_def smod_int_alt_def)


section \<open>The bidding invariant and the trump-broken flag\<close>

lemma outcome_simps [simp]:
  "outcome (Ok s) s' \<longleftrightarrow> s' = s" "outcome (Err e s) s' \<longleftrightarrow> s' = s" "\<not> outcome Panic s'"
  by (simp_all add: outcome_def)

lemma outcome_cases:
  assumes "outcome r s'"
  obtains "r = Ok s'" | e where "r = Err e s'"
  using assms by (cases r) auto

lemma frame_refl [simp]: "frame s s"
  by (simp add: frame_def)

lemma frame_trans: "frame s s1 \<Longrightarrow> frame s1 s2 \<Longrightarrow> frame s s2"
  by (auto simp: frame_def)

lemma quiet_refl [simp]: "quiet s s"
  by (simp add: quiet_def)

lemma quietI:
  "frame s s' \<Longrightarrow> Phase s' \<noteq> PhaseBidding \<Longrightarrow> Phase s' \<noteq> PhaseLobby \<Longrightarrow> quiet s s'"
  by (simp add: quiet_def)

lemma quiet_bidding_inv: "quiet s s' \<Longrightarrow> bidding_inv s \<Longrightarrow> bidding_inv s'"
  by (auto simp: quiet_def frame_def bidding_inv_def)

lemma takeKittyLoop_frame:
  "outcome (takeKittyLoop seat ids s) s' \<Longrightarrow> frame s s' \<and> Phase s' = Phase s"
proof (induction seat ids s rule: takeKittyLoop.induct)
  case (1 seat state)
  then show ?case by simp
next
  case (2 seat cardID rest state)
  show ?case
  proof (cases "findCard cardID (Kitty state)")
    case None
    with 2 show ?thesis by simp
  next
    case (Some idx)
    note idx = this
    show ?thesis
    proof (cases "Players state seat")
      case None
      with 2 idx show ?thesis by simp
    next
      case (Some player)
      let ?s1 = "state\<lparr>Kitty := removeAt idx (Kitty state),
                        Players := (Players state)(seat \<mapsto>
                          player\<lparr>Hand := Hand player @ [Kitty state ! idx]\<rparr>)\<rparr>"
      from "2.prems" idx Some have "outcome (takeKittyLoop seat rest ?s1) s'" by simp
      from "2.IH" [OF idx Some this] show ?thesis by (simp add: frame_def)
    qed
  qed
qed

lemma applyTakeKitty_quiet:
  assumes "outcome (applyTakeKitty s a) s'"
  shows "quiet s s'"
proof (cases "Phase s = PhaseKitty \<and> PlayerIndex a = BidWinner s \<and> inSeats (PlayerIndex a)")
  case False
  with assms show ?thesis by (auto simp: applyTakeKitty_def split: if_splits)
next
  case True
  show ?thesis
  proof (cases "takeKittyLoop (PlayerIndex a) (idsOf (CardIDs a)) s")
    case (Ok s1)
    then have "outcome (takeKittyLoop (PlayerIndex a) (idsOf (CardIDs a)) s) s1" by simp
    from takeKittyLoop_frame [OF this] assms Ok True show ?thesis
      by (auto simp: applyTakeKitty_def frame_def quiet_def)
  next
    case (Err e s1)
    then have "outcome (takeKittyLoop (PlayerIndex a) (idsOf (CardIDs a)) s) s1" by simp
    from takeKittyLoop_frame [OF this] assms Err True show ?thesis
      by (auto simp: applyTakeKitty_def frame_def quiet_def)
  next
    case Panic
    with assms True show ?thesis by (auto simp: applyTakeKitty_def)
  qed
qed

lemma drawCards_frame [simp]:
  "frame s (drawCards n seat p s)" "Phase (drawCards n seat p s) = Phase s"
  "BidWinner (drawCards n seat p s) = BidWinner s"
  by (simp_all add: drawCards_def frame_def split: option.splits prod.splits)

lemma processDiscard_frame:
  "outcome (processDiscard s i ids) s' \<Longrightarrow> frame s s' \<and> Phase s' = Phase s"
  by (auto simp: processDiscard_def Let_def frame_def drawCards_def
           split: if_splits option.splits prod.splits bool.splits)

lemma pendingPass_frame:
  assumes "pendingPass s = Returned s' \<or> pendingPass s = Again s'"
  shows "frame s s' \<and> (Phase s' = Phase s \<or> Phase s' = PhasePlaying)"
proof (cases "findIncomplete 4 (DiscardComplete s) (NextPlayer (CurrentPlayer s))")
  case (Found i)
  show ?thesis
  proof (cases "PendingDiscards s i")
    case None
    with assms Found show ?thesis by (auto simp: pendingPass_def frame_def)
  next
    case (Some ids)
    show ?thesis
    proof (cases "processDiscard (s\<lparr>CurrentPlayer := i\<rparr>) i ids")
      case (Ok s2)
      then have "outcome (processDiscard (s\<lparr>CurrentPlayer := i\<rparr>) i ids) s2" by simp
      from processDiscard_frame [OF this] assms Found Some Ok show ?thesis
        by (auto simp: pendingPass_def frame_def)
    next
      case (Err e s2)
      then have "outcome (processDiscard (s\<lparr>CurrentPlayer := i\<rparr>) i ids) s2" by simp
      from processDiscard_frame [OF this] assms Found Some Err show ?thesis
        by (auto simp: pendingPass_def frame_def)
    next
      case Panic
      with assms Found Some show ?thesis by (simp add: pendingPass_def)
    qed
  qed
next
  case AllDone
  with assms show ?thesis by (auto simp: pendingPass_def frame_def)
next
  case ScanPanic
  with assms show ?thesis by (simp add: pendingPass_def)
qed

lemma processPendingDiscards_frame:
  "processPendingDiscards s = Some s' \<Longrightarrow>
     frame s s' \<and> (Phase s' = Phase s \<or> Phase s' = PhasePlaying)"
proof (induction s rule: processPendingDiscards.induct)
  case (1 state)
  show ?case
  proof (cases "pendingPass state")
    case (Returned s1)
    with "1.prems" have "s' = s1" by (simp add: processPendingDiscards.simps [of state])
    with pendingPass_frame [of state s1] Returned show ?thesis by simp
  next
    case (Again s1)
    with "1.prems" have "processPendingDiscards s1 = Some s'"
      by (simp add: processPendingDiscards.simps [of state])
    from "1.IH" [OF Again this] pendingPass_frame [of state s1] Again show ?thesis
      by (auto intro: frame_trans)
  next
    case PassPanic
    with "1.prems" show ?thesis by (simp add: processPendingDiscards.simps [of state])
  qed
qed

lemma drawCards_fields [simp]:
  "Bids (drawCards n seat p s) = Bids s" "Dealer (drawCards n seat p s) = Dealer s"
  "TrumpBroken (drawCards n seat p s) = TrumpBroken s"
  "CurrentPlayer (drawCards n seat p s) = CurrentPlayer s"
  by (simp_all add: drawCards_def split: option.splits prod.splits)

lemma processPendingDiscards_fields:
  "processPendingDiscards x = Some s' \<Longrightarrow>
     Bids s' = Bids x \<and> Dealer s' = Dealer x \<and> TrumpBroken s' = TrumpBroken x
     \<and> (Phase s' = Phase x \<or> Phase s' = PhasePlaying)"
  using processPendingDiscards_frame [of x s'] by (simp add: frame_def)

lemma processDiscard_fields:
  "processDiscard x i ids = Ok s' \<or> processDiscard x i ids = Err e s' \<Longrightarrow>
     Bids s' = Bids x \<and> Dealer s' = Dealer x \<and> TrumpBroken s' = TrumpBroken x
     \<and> Phase s' = Phase x"
  using processDiscard_frame [of x i ids s'] by (auto simp: frame_def)

lemma applyDiscard_quiet:
  assumes "outcome (applyDiscard s a) s'"
  shows "quiet s s'"
  using assms
  by (auto simp: applyDiscard_def Let_def quiet_def frame_def
           split: if_splits option.splits prod.splits
           dest!: processPendingDiscards_fields)

lemma applyDiscardDraw_quiet:
  assumes "outcome (applyDiscardDraw s a) s'"
  shows "quiet s s'"
proof (cases "processDiscard s (PlayerIndex a) (idsOf (CardIDs a))")
  case (Ok s1)
  from processDiscard_fields [of s _ _ s1] Ok
  have f: "Bids s1 = Bids s \<and> Dealer s1 = Dealer s \<and> TrumpBroken s1 = TrumpBroken s
     \<and> Phase s1 = Phase s" by blast
  from assms Ok f show ?thesis
    by (auto simp: applyDiscardDraw_def quiet_def frame_def
             split: if_splits option.splits dest!: processPendingDiscards_fields)
next
  case (Err e s1)
  from processDiscard_fields [of s _ _ s1 e] Err
  have f: "Bids s1 = Bids s \<and> Dealer s1 = Dealer s \<and> TrumpBroken s1 = TrumpBroken s
     \<and> Phase s1 = Phase s" by blast
  from assms Err f show ?thesis
    by (auto simp: applyDiscardDraw_def quiet_def frame_def split: if_splits)
next
  case Panic
  with assms show ?thesis
    by (auto simp: applyDiscardDraw_def quiet_def frame_def split: if_splits)
qed

lemma applyPlayCard_quiet:
  assumes "outcome (applyPlayCard s a) s'"
  shows "quiet s s'"
  using assms
  by (auto simp: applyPlayCard_def Let_def quiet_def frame_def
           split: if_splits option.splits)

lemma simple_quiet:
  "outcome (applyLeaveSeat s a) s' \<Longrightarrow> quiet s s'"
  "outcome (applySelectTrump s a) s' \<Longrightarrow> quiet s s'"
  "outcome (applyChangeName s a) s' \<Longrightarrow> quiet s s'"
  "outcome (applyTransferHouse s a) s' \<Longrightarrow> quiet s s'"
  "outcome (applyKickPlayer s a) s' \<Longrightarrow> quiet s s'"
  by (auto simp: applyLeaveSeat_def applySelectTrump_def applyChangeName_def
        applyTransferHouse_def applyKickPlayer_def quiet_def frame_def Let_def
        split: if_splits option.splits)

lemma NextPlayer_mod: "0 \<le> c \<Longrightarrow> NextPlayer c = (c + 1) mod 4"
  by (simp add: NextPlayer_def smod_int_alt_def sgn_if)

lemma dealHands_fields:
  "dealHands seats s = Some s' \<Longrightarrow>
     Dealer s' = Dealer s \<and> TrumpBroken s' = TrumpBroken s \<and> Phase s' = Phase s
     \<and> Bids s' = Bids s \<and> CurrentTrick s' = CurrentTrick s"
proof (induction seats arbitrary: s)
  case Nil
  then show ?case by simp
next
  case (Cons i seats)
  from Cons.prems obtain p d where pd: "Players s i = Some p" "Deck s = Some d"
    by (auto split: option.splits)
  let ?s1 = "s\<lparr>Players := (Players s)(i \<mapsto> p\<lparr>Hand := fst (Deal 6 d)\<rparr>),
               Deck := Some (snd (Deal 6 d))\<rparr>"
  from Cons.prems pd have "dealHands seats ?s1 = Some s'"
    by (simp add: case_prod_beta)
  from Cons.IH [OF this] show ?case by simp
qed

lemma dealKitty_fields:
  "dealKitty s = Some s' \<Longrightarrow>
     Dealer s' = Dealer s \<and> TrumpBroken s' = TrumpBroken s \<and> Phase s' = Phase s
     \<and> Bids s' = Bids s \<and> CurrentTrick s' = CurrentTrick s \<and> Players s' = Players s"
  by (auto simp: dealKitty_def split: option.splits prod.splits)

lemma applyJoinSeat_bidding:
  "outcome (applyJoinSeat rnd s a) s' \<Longrightarrow>
     (bidding_inv s \<longrightarrow> bidding_inv s') \<and> TrumpBroken s' = TrumpBroken s"
  by (auto simp: applyJoinSeat_def bidding_inv_def inSeats_def Let_def split: if_splits)

lemma applyStartGame_bidding:
  assumes "outcome (applyStartGame rnd s a) s'"
  shows "(bidding_inv s \<longrightarrow> bidding_inv s') \<and> (\<not> TrumpBroken s \<longrightarrow> \<not> TrumpBroken s')"
proof (cases "applyStartGame rnd s a")
  case (Ok s1)
  with assms have e: "s1 = s'" by simp
  from Ok obtain x y where
    x: "dealHands [0, 1, 2, 3] (s\<lparr>Deck := Some (Shuffle rnd NewDeck)\<rparr>) = Some x"
    and y: "dealKitty x = Some y"
    and s': "s1 = y\<lparr>Phase := PhaseBidding,
                            CurrentPlayer := PlayerAfterDealer y,
                            Bids := [],
                            Trump := None,
                            TricksPlayed := 0,
                            CompletedTricks := [],
                            CardsWon := (\<lambda>_. []),
                            LastTrick := None,
                            DiscardComplete := (\<lambda>_. False),
                            PendingDiscards := (\<lambda>_. None),
                            TrumpBroken := False\<rparr>"
    by (auto simp: applyStartGame_def split: if_splits option.splits)
  from dealHands_fields [OF x] dealKitty_fields [OF y] have d: "Dealer y = Dealer s" by simp
  show ?thesis
    unfolding e [symmetric] s'
    by (auto simp: bidding_inv_def d PlayerAfterDealer_def NextPlayer_mod inSeats_def)
next
  case (Err e s1)
  with assms show ?thesis by (auto simp: applyStartGame_def split: if_splits option.splits)
next
  case Panic
  with assms show ?thesis by simp
qed

lemma highBidOf_zero:
  "\<forall>b \<in> set bids. Amount b = 0 \<Longrightarrow> highBidOf bids = 0"
  unfolding highBidOf_def by (induction bids rule: rev_induct) simp_all

lemma highBidOf_nonzero:
  "highBidOf bids \<noteq> 0 \<Longrightarrow> list_ex (\<lambda>b. Amount b \<noteq> 0) bids"
  using highBidOf_zero [of bids] by (auto simp: list_ex_iff)

lemma applyPlaceBid_bidding:
  assumes "outcome (applyPlaceBid s a) s'"
  shows "(bidding_inv s \<longrightarrow> bidding_inv s') \<and> TrumpBroken s' = TrumpBroken s"
proof (cases "applyPlaceBid s a")
  case (Err e s1)
  with assms show ?thesis by (auto simp: applyPlaceBid_def Let_def split: if_splits prod.splits)
next
  case Panic
  with assms show ?thesis by simp
next
  case (Ok s1)
  with assms have e: "s1 = s'" by simp
  define amount where "amount =
     (if PlayerIndex a = Dealer s \<and> (length (Bids s) = 3 \<and> highBidOf (Bids s) = 0)
         \<and> BidAmount a = 0 then 2 else BidAmount a)"
  define bids where "bids = Bids s @ [\<lparr>b_PlayerIndex = PlayerIndex a, Amount = amount\<rparr>]"
  from Ok have g: "Phase s = PhaseBidding" "PlayerIndex a = CurrentPlayer s"
    by (auto simp: applyPlaceBid_def Let_def split: if_splits)
  from Ok have "BidAmount a = 0 \<or> 2 \<le> BidAmount a"
    by (auto simp: applyPlaceBid_def Let_def split: if_splits)
  then have am: "amount = 0 \<or> 2 \<le> amount" by (auto simp: amount_def)
  from Ok g have f: "Bids s1 = bids" "Dealer s1 = Dealer s" "TrumpBroken s1 = TrumpBroken s"
    "length bids = 4 \<longrightarrow> Phase s1 = PhaseKitty"
    "length bids \<noteq> 4 \<longrightarrow> Phase s1 = PhaseBidding
        \<and> CurrentPlayer s1 = NextPlayer (CurrentPlayer s)"
    by (auto simp: applyPlaceBid_def Let_def bids_def amount_def split: if_splits prod.splits)
  have "bidding_inv s1" if i: "bidding_inv s"
  proof -
    from i g have l: "length (Bids s) < 4" "inSeats (Dealer s)"
      "list_all (\<lambda>b. Amount b = 0 \<or> 2 \<le> Amount b) (Bids s)"
      and c: "CurrentPlayer s = (Dealer s + 1 + int (length (Bids s))) mod 4"
      by (simp_all add: bidding_inv_def)
    have c0: "0 \<le> CurrentPlayer s" unfolding c by simp
    have "NextPlayer (CurrentPlayer s) = (CurrentPlayer s + 1) mod 4"
      using c0 by (rule NextPlayer_mod)
    also have "\<dots> = (Dealer s + 1 + int (length (Bids s)) + 1) mod 4"
      unfolding c by (simp add: mod_add_left_eq)
    finally have n: "NextPlayer (CurrentPlayer s) = (Dealer s + 1 + int (length bids)) mod 4"
      by (simp add: bids_def algebra_simps)
    have four: "list_ex (\<lambda>b. Amount b \<noteq> 0) bids" if "length bids = 4"
    proof -
      from that have l3: "length (Bids s) = 3" by (simp add: bids_def)
      with c l(2) have "CurrentPlayer s = Dealer s" by (simp add: inSeats_def)
      with g have d: "PlayerIndex a = Dealer s" by simp
      show ?thesis
      proof (cases "highBidOf (Bids s) = 0")
        case True
        with d l3 have "amount \<noteq> 0" by (simp add: amount_def)
        then show ?thesis by (simp add: bids_def)
      next
        case False
        from highBidOf_nonzero [OF this] show ?thesis by (simp add: bids_def)
      qed
    qed
    from l f n four am show ?thesis
      by (auto simp: bidding_inv_def bids_def)
  qed
  with f e show ?thesis by simp
qed

lemma applyResetGame_bidding:
  "outcome (applyResetGame s a) s' \<Longrightarrow> inSeats (PlayerIndex a) \<Longrightarrow>
     (bidding_inv s \<longrightarrow> bidding_inv s') \<and> (\<not> TrumpBroken s \<longrightarrow> \<not> TrumpBroken s')"
  by (auto simp: applyResetGame_def Let_def NewGameState_def bidding_inv_def split: if_splits)

lemma keeps_refl [simp]: "keeps s s"
  by (simp add: keeps_def)

lemma keeps_trans: "keeps s s1 \<Longrightarrow> keeps s1 s2 \<Longrightarrow> keeps s s2"
  by (simp add: keeps_def)

lemma quiet_keeps: "quiet s s' \<Longrightarrow> keeps s s'"
  using quiet_bidding_inv [of s s'] by (auto simp: keeps_def quiet_def frame_def)

lemma ApplyAction_keeps:
  assumes "outcome (ApplyAction rnd s a) s'"
    and "Type a = ActionResetGame \<longrightarrow> inSeats (PlayerIndex a)"
  shows "keeps s s'"
proof (cases "Type a")
  case ActionJoinSeat
  with assms applyJoinSeat_bidding [of rnd s a s'] show ?thesis
    by (simp add: ApplyAction_def keeps_def)
next
  case ActionLeaveSeat
  with assms show ?thesis by (simp add: ApplyAction_def quiet_keeps simple_quiet)
next
  case ActionChangeName
  with assms show ?thesis by (simp add: ApplyAction_def quiet_keeps simple_quiet)
next
  case ActionKickPlayer
  with assms show ?thesis by (simp add: ApplyAction_def quiet_keeps simple_quiet)
next
  case ActionTransferHouse
  with assms show ?thesis by (simp add: ApplyAction_def quiet_keeps simple_quiet)
next
  case ActionStartGame
  with assms applyStartGame_bidding [of rnd s a s'] show ?thesis
    by (simp add: ApplyAction_def keeps_def)
next
  case ActionPlaceBid
  with assms applyPlaceBid_bidding [of s a s'] show ?thesis
    by (simp add: ApplyAction_def keeps_def)
next
  case ActionSelectTrump
  with assms show ?thesis by (simp add: ApplyAction_def quiet_keeps simple_quiet)
next
  case ActionTakeKitty
  with assms show ?thesis by (simp add: ApplyAction_def quiet_keeps applyTakeKitty_quiet)
next
  case ActionDiscard
  with assms show ?thesis by (simp add: ApplyAction_def quiet_keeps applyDiscard_quiet)
next
  case ActionDiscardDraw
  with assms show ?thesis by (simp add: ApplyAction_def quiet_keeps applyDiscardDraw_quiet)
next
  case ActionPlayCard
  with assms show ?thesis by (simp add: ApplyAction_def quiet_keeps applyPlayCard_quiet)
next
  case ActionResetGame
  with assms applyResetGame_bidding [of s a s'] show ?thesis
    by (simp add: ApplyAction_def keeps_def)
next
  case (ActionOther name)
  with assms show ?thesis by (simp add: ApplyAction_def)
qed

lemma handleScoring_quiet: "quiet s (handleScoring s)"
  by (auto simp: handleScoring_def ApplyScore_def Let_def quiet_def frame_def
           split: prod.splits bool.splits)

lemma StartNewHand_keeps:
  assumes "StartNewHand rnd s = Some s'"
  shows "keeps s s'"
proof -
  from assms obtain x y where
    x: "dealHands [0, 1, 2, 3] (s\<lparr>Dealer := NextPlayer (Dealer s),
          Deck := Some (Shuffle rnd NewDeck)\<rparr>) = Some x"
    and y: "dealKitty x = Some y"
    and s': "s' = y\<lparr>Phase := PhaseBidding,
                            CurrentPlayer := PlayerAfterDealer y,
                            Bids := [],
                            Trump := None,
                            CurrentTrick := None,
                            LastTrick := None,
                            TricksPlayed := 0,
                            CompletedTricks := [],
                            CardsWon := (\<lambda>_. []),
                            BidWinner := - 1,
                            WinningBid := 0,
                            DiscardComplete := (\<lambda>_. False),
                            PendingDiscards := (\<lambda>_. None),
                            TrumpBroken := False\<rparr>"
    by (auto simp: StartNewHand_def split: option.splits)
  from dealHands_fields [OF x] dealKitty_fields [OF y]
  have d: "Dealer y = NextPlayer (Dealer s)" by simp
  have n: "inSeats c \<Longrightarrow> inSeats (NextPlayer c)" for c
    by (auto simp: inSeats_def NextPlayer_mod)
  show ?thesis
    unfolding s' using n [of "Dealer s"]
    by (auto simp: keeps_def bidding_inv_def d PlayerAfterDealer_def NextPlayer_mod inSeats_def)
qed

lemma handleNewHand_keeps:
  assumes "outcome (handleNewHand rnd c s) s'"
  shows "keeps s s'"
proof (cases "Phase s = PhaseScoring")
  case True
  with assms StartNewHand_keeps [of rnd s s'] show ?thesis
    by (auto simp: handleNewHand_def split: option.splits)
next
  case False
  with assms show ?thesis
    by (auto simp: handleNewHand_def Let_def NewGameState_def keeps_def bidding_inv_def
          inSeats_def split: if_splits)
qed

lemma handleJoinTable_keeps:
  assumes "outcome (handleJoinTable rnd c m s) s'"
  shows "keeps s s'"
proof (cases "m_SeatIndex m")
  case None
  with assms show ?thesis by (simp add: handleJoinTable_def)
next
  case (Some seatIndex)
  define left where "left = (if c_SeatIndex c \<ge> 0 \<and> c_SeatIndex c \<noteq> seatIndex
                      then ApplyAction rnd s
                             ((zeroAction ActionLeaveSeat)\<lparr>PlayerIndex := c_SeatIndex c\<rparr>)
                      else Ok s)"
  have l: "outcome left x \<Longrightarrow> keeps s x" for x
    by (auto simp: left_def zeroAction_def split: if_splits intro: ApplyAction_keeps)
  show ?thesis
  proof (cases left)
    case (Ok s1)
    with l have k: "keeps s s1" by simp
    have "keeps s1 s'"
    proof (cases "Phase s1 = PhaseLobby")
      case True
      with assms Some Ok have "outcome (ApplyAction rnd s1
                        ((zeroAction ActionJoinSeat)\<lparr>PlayerIndex := seatIndex,
                                                     PlayerName := m_PlayerName m\<rparr>)) s'"
        by (simp add: handleJoinTable_def left_def [symmetric])
      then show ?thesis by (rule ApplyAction_keeps) (simp add: zeroAction_def)
    next
      case False
      with assms Some Ok have "quiet s1 s'"
        by (auto simp: handleJoinTable_def left_def [symmetric] quiet_def frame_def
                 split: if_splits option.splits)
      then show ?thesis by (rule quiet_keeps)
    qed
    with k show ?thesis by (rule keeps_trans)
  next
    case (Err e s1)
    with assms Some have "s' = s1" by (simp add: handleJoinTable_def left_def [symmetric])
    with l Err show ?thesis by simp
  next
    case Panic
    with assms Some show ?thesis by (simp add: handleJoinTable_def left_def [symmetric])
  qed
qed

lemma handlePlayCard_keeps:
  assumes "outcome (handlePlayCard rnd c m s) s'"
  shows "keeps s s'"
proof (cases "c_SeatIndex c < 0")
  case True
  with assms show ?thesis by (simp add: handlePlayCard_def)
next
  case False
  let ?a = "(zeroAction ActionPlayCard)\<lparr>PlayerIndex := c_SeatIndex c, CardID := m_CardID m\<rparr>"
  show ?thesis
  proof (cases "ApplyAction rnd s ?a")
    case (Ok s1)
    then have "outcome (ApplyAction rnd s ?a) s1" by simp
    then have k: "keeps s s1" by (rule ApplyAction_keeps) (simp add: zeroAction_def)
    from assms False Ok have "s' = handleScoring s1 \<or> s' = s1"
      by (auto simp: handlePlayCard_def split: if_splits)
    with k quiet_keeps [OF handleScoring_quiet, of s1] show ?thesis
      by (auto intro: keeps_trans)
  next
    case (Err e s1)
    then have "outcome (ApplyAction rnd s ?a) s1" by simp
    then have "keeps s s1" by (rule ApplyAction_keeps) (simp add: zeroAction_def)
    with assms False Err show ?thesis by (simp add: handlePlayCard_def)
  next
    case Panic
    with assms False show ?thesis by (simp add: handlePlayCard_def)
  qed
qed

lemma handleRejoin_quiet: "outcome (handleRejoin m s) s' \<Longrightarrow> quiet s s'"
  by (auto simp: handleRejoin_def quiet_def frame_def split: list.splits option.splits)

lemma HandleDisconnect_quiet: "quiet s (HandleDisconnect c s)"
  by (auto simp: HandleDisconnect_def quiet_def frame_def split: option.splits)

lemma HandleMessage_keeps:
  assumes "outcome (HandleMessage rnd c m s) s'" and "wfClient c"
  shows "keeps s s'"
proof -
  have seat: "\<not> c_SeatIndex c < 0 \<Longrightarrow> inSeats (c_SeatIndex c)"
    using assms(2) by (simp add: wfClient_def inSeats_def)
  have ap: "outcome (ApplyAction rnd s ((zeroAction t)\<lparr>PlayerIndex := c_SeatIndex c\<rparr>)) s'
      \<Longrightarrow> \<not> c_SeatIndex c < 0 \<Longrightarrow> keeps s s'" for t
    using seat by (auto intro: ApplyAction_keeps)
  show ?thesis
  proof (cases "m_Type m")
    case MsgJoinTable
    with assms show ?thesis by (simp add: HandleMessage_def handleJoinTable_keeps)
  next
    case MsgPlayCard
    with assms show ?thesis by (simp add: HandleMessage_def handlePlayCard_keeps)
  next
    case MsgNewHand
    with assms show ?thesis by (simp add: HandleMessage_def handleNewHand_keeps)
  next
    case MsgRejoin
    with assms show ?thesis by (simp add: HandleMessage_def handleRejoin_quiet quiet_keeps)
  next
    case MsgStartGame
    with assms show ?thesis
      by (auto simp: HandleMessage_def handleStartGame_def zeroAction_def
               intro: ApplyAction_keeps)
  next
    case MsgResetGame
    with assms seat show ?thesis
      by (auto simp: HandleMessage_def handleResetGame_def zeroAction_def
               split: if_splits intro: ApplyAction_keeps)
  next
    case (MsgOther name)
    with assms show ?thesis by (simp add: HandleMessage_def)
  qed (use assms in \<open>auto simp: HandleMessage_def handleLeaveSeat_def handleChangeName_def
        handleKickPlayer_def handleTransferHouse_def handlePlaceBid_def handleSelectTrump_def
        handleTakeKitty_def handleDiscard_def handleDiscardDraw_def zeroAction_def Let_def
        split: if_splits option.splits intro: ApplyAction_keeps\<close>)
qed

lemma NewGameState_table: "bidding_inv (NewGameState t)" "\<not> TrumpBroken (NewGameState t)"
  by (simp_all add: NewGameState_def bidding_inv_def inSeats_def)

lemma reachable_table: "reachable s \<Longrightarrow> bidding_inv s \<and> \<not> TrumpBroken s"
proof (induction rule: reachable.induct)
  case (reach_init targetScore)
  show ?case by (simp add: NewGameState_table)
next
  case (reach_ok gs client rnd msg gs')
  from HandleMessage_keeps [of rnd client msg gs gs'] reach_ok show ?case
    by (simp add: keeps_def)
next
  case (reach_err gs client rnd msg e gs')
  from HandleMessage_keeps [of rnd client msg gs gs'] reach_err show ?case
    by (simp add: keeps_def)
next
  case (reach_disconnect gs client)
  from quiet_keeps [OF HandleDisconnect_quiet, of gs client] reach_disconnect show ?case
    by (simp add: keeps_def)
qed

section \<open>The cards of the record\<close>

lemma tame_refl [simp]: "tame s s"
  by (simp add: tame_def)

lemma tame_trans: "tame s s1 \<Longrightarrow> tame s1 s2 \<Longrightarrow> tame s s2"
  by (auto simp: tame_def intro: subset_mset.order_trans)





lemma Deal_mset: "Deal n d = (a, b) \<Longrightarrow> mset a + mset b = mset d"
  by (auto simp: Deal_def Let_def simp flip: mset_append)




















lemma dealHands_cards:
  "dealHands seats s = Some s' \<Longrightarrow> distinct seats \<Longrightarrow>
     deckOf (Deck s') + (\<Sum>i \<leftarrow> seats. handOf (Players s' i)) = deckOf (Deck s)
     \<and> (\<forall>j. j \<notin> set seats \<longrightarrow> Players s' j = Players s j)
     \<and> Kitty s' = Kitty s \<and> CompletedTricks s' = CompletedTricks s"
proof (induction seats arbitrary: s)
  case Nil
  then show ?case by simp
next
  case (Cons i seats)
  from Cons.prems obtain p d where pd: "Players s i = Some p" "Deck s = Some d"
    by (auto split: option.splits)
  obtain dealt rest where dr: "Deal 6 d = (dealt, rest)" by (cases "Deal 6 d")
  let ?s1 = "s\<lparr>Players := (Players s)(i \<mapsto> p\<lparr>Hand := dealt\<rparr>), Deck := Some rest\<rparr>"
  from Cons.prems pd dr have d1: "dealHands seats ?s1 = Some s'" by simp
  from Cons.prems have ds: "distinct seats" "i \<notin> set seats" by simp_all
  from Cons.IH [OF d1 ds(1)]
  have ih: "deckOf (Deck s') + (\<Sum>i \<leftarrow> seats. handOf (Players s' i)) = mset rest"
    "\<forall>j. j \<notin> set seats \<longrightarrow> Players s' j = Players ?s1 j"
    "Kitty s' = Kitty s" "CompletedTricks s' = CompletedTricks s"
    by (simp_all add: deckOf_def)
  from ih(2) ds(2) have "Players s' i = Some (p\<lparr>Hand := dealt\<rparr>)" by simp
  then have "handOf (Players s' i) = mset dealt" by (simp add: handOf_def)
  with ih(1) Deal_mset [OF dr] pd
  have "deckOf (Deck s') + (\<Sum>i \<leftarrow> i # seats. handOf (Players s' i)) = deckOf (Deck s)"
    by (simp add: deckOf_def ac_simps)
  moreover from ih(2) have "\<forall>j. j \<notin> set (i # seats) \<longrightarrow> Players s' j = Players s j"
    by simp
  ultimately show ?case using ih(3,4) by simp
qed

lemma dealt_cards:
  assumes "dealHands [0, 1, 2, 3] (s\<lparr>Deck := Some d\<rparr>) = Some x" and "dealKitty x = Some y"
  shows "deckOf (Deck y) + handsOf (Players y) + mset (Kitty y) = mset d"
proof -
  from dealHands_cards [OF assms(1)]
  have a: "deckOf (Deck x) + handsOf (Players x) = mset d"
    by (simp add: handsOf_def deckOf_def ac_simps)
  from assms(2) obtain dx where dx: "Deck x = Some dx" by (auto simp: dealKitty_def split: option.splits)
  obtain k rest where kr: "Deal 6 dx = (k, rest)" by (cases "Deal 6 dx")
  from assms(2) dx kr have y: "y = x\<lparr>Kitty := k, Deck := Some rest\<rparr>"
    by (simp add: dealKitty_def)
  from Deal_mset [OF kr] have "mset dx = mset k + mset rest" by simp
  with a dx have "mset rest + handsOf (Players x) + mset k = mset d"
    by (simp add: deckOf_def ac_simps)
  then show ?thesis by (simp add: y deckOf_def)
qed










section \<open>A game from the lobby to the kitty, and the claims on reachable records\<close>

lemma length_NewDeck: "length NewDeck = 52"
  by (simp add: NewDeck_def AllSuits_def AllRanks_def)

lemma Deal_six: "6 \<le> length d \<Longrightarrow> Deal 6 d = (take 6 d, drop 6 d)"
  by (simp add: Deal_def)

lemmas handler_defs = HandleMessage_def handleJoinTable_def handleStartGame_def
  handlePlaceBid_def handleTakeKitty_def ApplyAction_def seatClient_def message_def
  zeroAction_def joinMsg_def passMsg_def fixedRand_def

lemma permShuffle_fixedRand: "permShuffle fixedRand"
  by (simp add: permShuffle_def fixedRand_def)

lemma play_reachable:
  "reachable s \<Longrightarrow> list_all (\<lambda>cm. wfClient (fst cm)) ms \<Longrightarrow> play ms s = Some s' \<Longrightarrow>
     reachable s'"
proof (induction ms arbitrary: s)
  case Nil
  then show ?case by simp
next
  case (Cons cm ms)
  obtain c m where cm: "cm = (c, m)" by (cases cm)
  from Cons.prems(2) cm have w: "wfClient c" "list_all (\<lambda>cm. wfClient (fst cm)) ms" by simp_all
  show ?case
  proof (cases "HandleMessage fixedRand c m s")
    case (Ok s1)
    from reach_ok [OF Cons.prems(1) w(1) permShuffle_fixedRand Ok] have "reachable s1" .
    moreover from Cons.prems(3) cm Ok have "play ms s1 = Some s'" by simp
    ultimately show ?thesis using w(2) by (intro Cons.IH)
  next
    case (Err e s1)
    from reach_err [OF Cons.prems(1) w(1) permShuffle_fixedRand Err] have "reachable s1" .
    moreover from Cons.prems(3) cm Err have "play ms s1 = Some s'" by simp
    ultimately show ?thesis using w(2) by (intro Cons.IH)
  next
    case Panic
    with Cons.prems(3) cm show ?thesis by simp
  qed
qed

lemma play_lobbyDemo:
  "play [joinMsg 0 ''north'', joinMsg 1 ''east'', joinMsg 2 ''south'', joinMsg 3 ''west'']
     (NewGameState 52) = Some lobbyDemo"
  by (simp add: lobbyDemo_def fourPlayers_def handler_defs applyJoinSeat_def NewGameState_def)

lemma play_lobbyEast:
  "play [joinMsg 1 ''east'', joinMsg 0 ''north'', joinMsg 2 ''south'', joinMsg 3 ''west'']
     (NewGameState 52) = Some lobbyEast"
  by (simp add: lobbyEast_def handler_defs applyJoinSeat_def NewGameState_def)

lemma start_lobbyDemo:
  "HandleMessage fixedRand (seatClient 2) (message MsgStartGame) lobbyDemo = Ok dealtDemo"
  by (simp add: dealtDemo_def dealtPlayers_def lobbyDemo_def fourPlayers_def handler_defs
        applyStartGame_def NewGameState_def AllPlayersSeated_def dealKitty_def Deal_six
        length_NewDeck PlayerAfterDealer_def NextPlayer_values)

lemma play_biddingDemo:
  "play [passMsg 1, passMsg 2, passMsg 3] dealtDemo = Some biddingDemo"
  by (simp add: biddingDemo_def dealtDemo_def lobbyDemo_def handler_defs applyPlaceBid_def
        NewGameState_def NextPlayer_values highBidOf_def Let_def)

lemma pass_biddingDemo:
  "HandleMessage fixedRand (seatClient 0) (snd (passMsg 0)) biddingDemo = Ok kittyDemo"
  by (simp add: kittyDemo_def biddingDemo_def dealtDemo_def lobbyDemo_def handler_defs
        applyPlaceBid_def NewGameState_def highBidOf_def findBidWinner_def Let_def)

lemma take_nothing:
  "HandleMessage fixedRand (seatClient 0) (message MsgTakeKitty) kittyDemo = Ok kittyPassed"
  by (simp add: kittyPassed_def kittyDemo_def biddingDemo_def dealtDemo_def lobbyDemo_def
        handler_defs applyTakeKitty_def NewGameState_def inSeats_def idsOf_def)

lemma reachable_demo:
  "reachable lobbyDemo" "reachable lobbyEast" "reachable dealtDemo" "reachable biddingDemo"
  "reachable kittyDemo" "reachable kittyPassed"
proof -
  have w: "wfClient (seatClient i)" if "- 1 \<le> i" "i \<le> 3" for i
    using that by (simp add: wfClient_def seatClient_def)
  have init: "reachable (NewGameState 52)" by (rule reach_init)
  show l: "reachable lobbyDemo"
    by (rule play_reachable [OF init _ play_lobbyDemo])
       (simp add: joinMsg_def wfClient_def seatClient_def)
  show "reachable lobbyEast"
    by (rule play_reachable [OF init _ play_lobbyEast])
       (simp add: joinMsg_def wfClient_def seatClient_def)
  show d: "reachable dealtDemo"
    by (rule reach_ok [OF l _ permShuffle_fixedRand start_lobbyDemo]) (simp add: w)
  show b: "reachable biddingDemo"
    by (rule play_reachable [OF d _ play_biddingDemo])
       (simp add: passMsg_def wfClient_def seatClient_def)
  show k: "reachable kittyDemo"
    by (rule reach_ok [OF b _ permShuffle_fixedRand pass_biddingDemo]) (simp add: w)
  show "reachable kittyPassed"
    by (rule reach_ok [OF k _ permShuffle_fixedRand take_nothing]) (simp add: w)
qed

lemma kitty_cards:
  "take 6 (drop 24 NewDeck) =
     [NewCard Hearts King, NewCard Hearts Ace, NewCard Diamonds Two, NewCard Diamonds Three,
      NewCard Diamonds Four, NewCard Diamonds Five]"
  by (simp add: NewDeck_def AllSuits_def AllRanks_def)

lemma card_ids:
  "ID (NewCard Hearts King) = ''king_hearts''" "ID (NewCard Hearts Ace) = ''ace_hearts''"
  "ID (NewCard Diamonds Two) = ''2_diamonds''" "ID (NewCard Diamonds Three) = ''3_diamonds''"
  "ID (NewCard Diamonds Four) = ''4_diamonds''" "ID (NewCard Diamonds Five) = ''5_diamonds''"
  by (simp_all add: NewCard_def Rank_String_def showInt_def showNat.simps digit_char_def
        char_of_def bit_Suc_0_iff)

text \<open>
  C1 (fails on the code). The bid winner of the reachable record \<open>kittyDemo\<close> asks for
  the king of hearts, which the kitty holds, and for a card it does not hold.
  \<open>ApplyAction\<close> returns the card-not-in-kitty error, and the record it leaves is not
  the record it was given: the king has left the kitty (five cards instead of six) and
  sits in the bid winner's hand.
\<close>

theorem C1_error_after_partial_take:
  "reachable kittyDemo
   \<and> ApplyAction fixedRand kittyDemo takeKingAndJoker = Err ErrCardNotInKitty kittyHalfTaken
   \<and> kittyHalfTaken \<noteq> kittyDemo
   \<and> length (Kitty kittyDemo) = 6
   \<and> length (Kitty kittyHalfTaken) = 5"
proof -
  have k: "Kitty kittyDemo = take 6 (drop 24 NewDeck)"
    by (simp add: kittyDemo_def biddingDemo_def dealtDemo_def)
  have l: "length (Kitty kittyDemo) = 6" "length (Kitty kittyHalfTaken) = 5"
    by (simp_all add: k length_NewDeck kittyHalfTaken_def)
  then have n: "kittyHalfTaken \<noteq> kittyDemo" by auto
  have a: "ApplyAction fixedRand kittyDemo takeKingAndJoker
             = Err ErrCardNotInKitty kittyHalfTaken"
    by (simp add: takeKingAndJoker_def kittyHalfTaken_def kittyDemo_def biddingDemo_def
          dealtDemo_def dealtPlayers_def lobbyDemo_def fourPlayers_def ApplyAction_def
          zeroAction_def applyTakeKitty_def NewGameState_def inSeats_def idsOf_def
          kitty_cards card_ids removeAt_def)
  from reachable_demo(5) a n l show ?thesis by blast
qed






lemma findBidWinner_snoc:
  "findBidWinner d (bids @ [b]) =
     (case findBidWinner d bids of
        (h, w) \<Rightarrow> if Amount b > h then (Amount b, b_PlayerIndex b) else (h, w))"
  by (simp add: findBidWinner_def split: prod.splits)

lemma findBidWinner_passes:
  "list_all (\<lambda>b. Amount b = 0) bids \<Longrightarrow> findBidWinner d bids = (0, d)"
proof (induction bids rule: rev_induct)
  case Nil
  show ?case by (simp add: findBidWinner_def)
next
  case (snoc b bids)
  then show ?case by (simp add: findBidWinner_snoc)
qed

lemma findBidWinner_highest:
  "findBidWinner d bids = (h, w) \<Longrightarrow>
     0 \<le> h \<and> (\<forall>b \<in> set bids. Amount b \<le> h)
     \<and> (h = 0 \<and> w = d \<or> (\<exists>b \<in> set bids. Amount b = h \<and> b_PlayerIndex b = w))"
proof (induction bids arbitrary: h w rule: rev_induct)
  case Nil
  then show ?case by (simp add: findBidWinner_def)
next
  case (snoc b bids)
  obtain h0 w0 where p: "findBidWinner d bids = (h0, w0)" by (cases "findBidWinner d bids")
  from snoc.IH [OF p] snoc.prems p show ?case
    by (auto simp: findBidWinner_snoc split: if_splits)
qed

text \<open>
  C6. In every reachable record four recorded bids are never four passes. In phase
  bidding with three bids recorded, the seat to act is the dealer; if the three are
  passes and the dealer submits amount 0, the bid is recorded as amount 2, the dealer
  becomes bid winner and seat to act with winning bid 2, and the phase is kitty. Whatever
  fourth bid is accepted, the phase becomes kitty, the winning bid is the highest amount
  recorded (at least 2), and the bid winner, who is also the seat to act, is a seat that
  bid it.
\<close>

theorem C6_dealer_forced_bid:
  assumes "reachable s"
  shows "(length (Bids s) = 4 \<longrightarrow> list_ex (\<lambda>b. Amount b \<noteq> 0) (Bids s))
       \<and> (Phase s = PhaseBidding \<and> length (Bids s) = 3 \<and> Type a = ActionPlaceBid
            \<and> PlayerIndex a = CurrentPlayer s
          \<longrightarrow> PlayerIndex a = Dealer s
            \<and> (list_all (\<lambda>b. Amount b = 0) (Bids s) \<and> BidAmount a = 0
               \<longrightarrow> ApplyAction rnd s a =
                     Ok (s\<lparr>Bids := Bids s @ [\<lparr>b_PlayerIndex = Dealer s, Amount = 2\<rparr>],
                           BidWinner := Dealer s,
                           WinningBid := 2,
                           CurrentPlayer := Dealer s,
                           Phase := PhaseKitty\<rparr>))
            \<and> (ApplyAction rnd s a = Ok s'
               \<longrightarrow> Phase s' = PhaseKitty \<and> length (Bids s') = 4
                 \<and> list_ex (\<lambda>b. Amount b \<noteq> 0) (Bids s')
                 \<and> CurrentPlayer s' = BidWinner s'
                 \<and> 2 \<le> WinningBid s'
                 \<and> (\<forall>b \<in> set (Bids s'). Amount b \<le> WinningBid s')
                 \<and> (\<exists>b \<in> set (Bids s'). Amount b = WinningBid s'
                        \<and> b_PlayerIndex b = BidWinner s')))"
proof -
  from reachable_table [OF assms] have inv: "bidding_inv s" by simp
  then have four: "length (Bids s) = 4 \<longrightarrow> list_ex (\<lambda>b. Amount b \<noteq> 0) (Bids s)"
    by (simp add: bidding_inv_def)
  have third: "PlayerIndex a = Dealer s
            \<and> (list_all (\<lambda>b. Amount b = 0) (Bids s) \<and> BidAmount a = 0
               \<longrightarrow> ApplyAction rnd s a =
                     Ok (s\<lparr>Bids := Bids s @ [\<lparr>b_PlayerIndex = Dealer s, Amount = 2\<rparr>],
                           BidWinner := Dealer s,
                           WinningBid := 2,
                           CurrentPlayer := Dealer s,
                           Phase := PhaseKitty\<rparr>))
            \<and> (ApplyAction rnd s a = Ok s'
               \<longrightarrow> Phase s' = PhaseKitty \<and> length (Bids s') = 4
                 \<and> list_ex (\<lambda>b. Amount b \<noteq> 0) (Bids s')
                 \<and> CurrentPlayer s' = BidWinner s'
                 \<and> 2 \<le> WinningBid s'
                 \<and> (\<forall>b \<in> set (Bids s'). Amount b \<le> WinningBid s')
                 \<and> (\<exists>b \<in> set (Bids s'). Amount b = WinningBid s'
                        \<and> b_PlayerIndex b = BidWinner s'))"
    if h: "Phase s = PhaseBidding" "length (Bids s) = 3" "Type a = ActionPlaceBid"
      "PlayerIndex a = CurrentPlayer s"
  proof -
    have A: "ApplyAction rnd s a = applyPlaceBid s a" using h(3) by (simp add: ApplyAction_def)
    from inv h have "CurrentPlayer s = Dealer s"
      by (simp add: bidding_inv_def inSeats_def)
    with h have d: "PlayerIndex a = Dealer s" by simp
    have forced: "ApplyAction rnd s a =
                     Ok (s\<lparr>Bids := Bids s @ [\<lparr>b_PlayerIndex = Dealer s, Amount = 2\<rparr>],
                           BidWinner := Dealer s,
                           WinningBid := 2,
                           CurrentPlayer := Dealer s,
                           Phase := PhaseKitty\<rparr>)"
      if p: "list_all (\<lambda>b. Amount b = 0) (Bids s)" "BidAmount a = 0"
    proof -
      from p(1) have hb: "highBidOf (Bids s) = 0"
        by (intro highBidOf_zero) (simp add: list_all_iff)
      from findBidWinner_passes [OF p(1), of "Dealer s"]
      have w: "findBidWinner (Dealer s) (Bids s @ [\<lparr>b_PlayerIndex = Dealer s, Amount = 2\<rparr>])
                 = (2, Dealer s)"
        by (simp add: findBidWinner_snoc)
      from h d p(2) hb w show ?thesis
        unfolding A by (simp add: applyPlaceBid_def Let_def)
    qed
    have accepted: "Phase s' = PhaseKitty \<and> length (Bids s') = 4
                 \<and> list_ex (\<lambda>b. Amount b \<noteq> 0) (Bids s')
                 \<and> CurrentPlayer s' = BidWinner s'
                 \<and> 2 \<le> WinningBid s'
                 \<and> (\<forall>b \<in> set (Bids s'). Amount b \<le> WinningBid s')
                 \<and> (\<exists>b \<in> set (Bids s'). Amount b = WinningBid s'
                        \<and> b_PlayerIndex b = BidWinner s')"
      if ok: "ApplyAction rnd s a = Ok s'"
    proof -
      from ok have o: "outcome (applyPlaceBid s a) s'" unfolding A by simp
      from applyPlaceBid_bidding [OF o] inv have inv': "bidding_inv s'" by simp
      obtain hw ww where fw: "findBidWinner (Dealer s') (Bids s') = (hw, ww)"
        by (cases "findBidWinner (Dealer s') (Bids s')")
      from ok h fw have f: "Phase s' = PhaseKitty" "length (Bids s') = 4"
        "BidWinner s' = ww" "WinningBid s' = hw" "CurrentPlayer s' = ww"
        unfolding A by (auto simp: applyPlaceBid_def Let_def split: if_splits prod.splits)
      from inv' f(2) have np: "list_ex (\<lambda>b. Amount b \<noteq> 0) (Bids s')"
        and am: "list_all (\<lambda>b. Amount b = 0 \<or> 2 \<le> Amount b) (Bids s')"
        by (simp_all add: bidding_inv_def)
      from np am obtain b where b: "b \<in> set (Bids s')" "2 \<le> Amount b"
        by (auto simp: list_ex_iff list_all_iff)
      from findBidWinner_highest [OF fw] b
      have "2 \<le> hw" "\<forall>b \<in> set (Bids s'). Amount b \<le> hw"
        "\<exists>b \<in> set (Bids s'). Amount b = hw \<and> b_PlayerIndex b = ww"
        by force+
      with f np show ?thesis by simp
    qed
    from d forced accepted show ?thesis by blast
  qed
  from four third show ?thesis by blast
qed

theorem C6_dealer_forced_bid_witness:
  "reachable biddingDemo
   \<and> Phase biddingDemo = PhaseBidding
   \<and> length (Bids biddingDemo) = 3
   \<and> list_all (\<lambda>b. Amount b = 0) (Bids biddingDemo)
   \<and> CurrentPlayer biddingDemo = Dealer biddingDemo
   \<and> ApplyAction fixedRand biddingDemo ((zeroAction ActionPlaceBid)\<lparr>PlayerIndex := 0\<rparr>)
       = Ok kittyDemo
   \<and> Bids kittyDemo = Bids biddingDemo @ [\<lparr>b_PlayerIndex = 0, Amount = 2\<rparr>]
   \<and> Phase kittyDemo = PhaseKitty
   \<and> BidWinner kittyDemo = 0
   \<and> WinningBid kittyDemo = 2
   \<and> CurrentPlayer kittyDemo = 0"
proof -
  let ?a = "(zeroAction ActionPlaceBid)\<lparr>PlayerIndex := 0\<rparr>"
  have h: "Phase biddingDemo = PhaseBidding" "length (Bids biddingDemo) = 3"
    "Type ?a = ActionPlaceBid" "PlayerIndex ?a = CurrentPlayer biddingDemo"
    "list_all (\<lambda>b. Amount b = 0) (Bids biddingDemo)" "BidAmount ?a = 0"
    "Dealer biddingDemo = 0"
    by (simp_all add: biddingDemo_def dealtDemo_def lobbyDemo_def NewGameState_def
          zeroAction_def)
  have k: "biddingDemo\<lparr>Bids := Bids biddingDemo @ [\<lparr>b_PlayerIndex = 0, Amount = 2\<rparr>],
                           BidWinner := 0, WinningBid := 2, CurrentPlayer := 0,
                           Phase := PhaseKitty\<rparr> = kittyDemo"
    by (simp add: kittyDemo_def)
  have f: "Bids kittyDemo = Bids biddingDemo @ [\<lparr>b_PlayerIndex = 0, Amount = 2\<rparr>]"
    "Phase kittyDemo = PhaseKitty" "BidWinner kittyDemo = 0" "WinningBid kittyDemo = 2"
    "CurrentPlayer kittyDemo = 0"
    by (simp_all add: kittyDemo_def)
  from C6_dealer_forced_bid [OF reachable_demo(4), of ?a fixedRand kittyDemo] h
  have "ApplyAction fixedRand biddingDemo ?a = Ok kittyDemo"
    by (simp add: k)
  with reachable_demo(4) h f show ?thesis by simp
qed

text \<open>
  C7 (fails on the code). \<open>handleStartGame\<close> sends the engine a start-game action whose
  acting seat is the zero value 0, whoever asked. On \<open>lobbyDemo\<close>, where seat 0 is the
  house, the request of seat 2, which is not the house, starts the game. On \<open>lobbyEast\<close>,
  where seat 1 is the house and all four seats are filled, the request of the house
  itself is refused.
\<close>

theorem C7_start_game_ignores_requester:
  "reachable lobbyDemo \<and> House lobbyDemo = 0
   \<and> HandleMessage fixedRand (seatClient 2) (message MsgStartGame) lobbyDemo = Ok dealtDemo
   \<and> Phase dealtDemo = PhaseBidding
   \<and> reachable lobbyEast \<and> House lobbyEast = 1 \<and> AllPlayersSeated lobbyEast
   \<and> HandleMessage fixedRand (seatClient 1) (message MsgStartGame) lobbyEast
       = Err (ErrMsg ''only the house can start the game'') lobbyEast"
proof -
  have a: "House lobbyDemo = 0" "Phase dealtDemo = PhaseBidding"
    "House lobbyEast = 1" "AllPlayersSeated lobbyEast"
    by (simp_all add: lobbyDemo_def dealtDemo_def lobbyEast_def AllPlayersSeated_def)
  have b: "HandleMessage fixedRand (seatClient 1) (message MsgStartGame) lobbyEast
       = Err (ErrMsg ''only the house can start the game'') lobbyEast"
    by (simp add: handler_defs applyStartGame_def lobbyEast_def NewGameState_def)
  from reachable_demo(1,2) start_lobbyDemo a b show ?thesis by simp
qed

text \<open>
  C9. In every reachable record the trump-broken flag is false: \<open>NewGameState\<close> leaves
  it at its zero value, start-game and new-hand write false, and nothing writes true.
  \<open>BuildPublicState\<close> copies the flag into the public view, where it is false too.
\<close>

theorem C9_trump_broken_never_set:
  assumes "reachable s"
  shows "\<not> TrumpBroken s
       \<and> ps_TrumpBroken (BuildPublicState s) = TrumpBroken s
       \<and> \<not> ps_TrumpBroken (BuildPublicState s)"
  using reachable_table [OF assms] by (simp add: BuildPublicState_def)

theorem C9_trump_broken_never_set_witness:
  "reachable kittyDemo \<and> \<not> TrumpBroken kittyDemo
   \<and> \<not> ps_TrumpBroken (BuildPublicState kittyDemo)"
  using C9_trump_broken_never_set [OF reachable_demo(5)] reachable_demo(5) by simp

section \<open>Starting a game at the engine\<close>

lemma dealHands_six:
  "dealHands seats s = Some s' \<Longrightarrow> distinct seats \<Longrightarrow> Deck s = Some d \<Longrightarrow>
   6 * length seats \<le> length d \<Longrightarrow>
     (\<forall>i \<in> set seats. \<exists>p. Players s' i = Some p \<and> length (Hand p) = 6)
     \<and> (\<exists>d'. Deck s' = Some d' \<and> length d' = length d - 6 * length seats)"
proof (induction seats arbitrary: s d)
  case Nil
  then show ?case by simp
next
  case (Cons i seats)
  from Cons.prems obtain p where p: "Players s i = Some p" by (auto split: option.splits)
  from Cons.prems(4) have six: "6 \<le> length d" by simp
  let ?s1 = "s\<lparr>Players := (Players s)(i \<mapsto> p\<lparr>Hand := take 6 d\<rparr>), Deck := Some (drop 6 d)\<rparr>"
  from Cons.prems(1,3) p six have d1: "dealHands seats ?s1 = Some s'"
    by (simp add: Deal_six)
  from Cons.prems(2) have ds: "distinct seats" "i \<notin> set seats" by simp_all
  from Cons.prems(4) have l: "6 * length seats \<le> length (drop 6 d)" by simp
  from Cons.IH [OF d1 ds(1) _ l]
  have ih: "\<forall>i \<in> set seats. \<exists>p. Players s' i = Some p \<and> length (Hand p) = 6"
    "\<exists>d'. Deck s' = Some d' \<and> length d' = length (drop 6 d) - 6 * length seats"
    by simp_all
  from dealHands_cards [OF d1 ds(1)] ds(2)
  have "Players s' i = Some (p\<lparr>Hand := take 6 d\<rparr>)" by simp
  with six have "\<exists>p. Players s' i = Some p \<and> length (Hand p) = 6" by simp
  with ih show ?case by auto
qed

text \<open>
  What \<open>applyStartGame\<close> does when it succeeds: the phase was lobby, the acting seat of
  the action is the house and all four seats are filled; the shuffled deck is dealt, six
  cards to each seat and six to the kitty, which leaves 22 in the deck and every card of
  the deck in exactly one place; bids, trump, tricks, captured cards, discard flags,
  pending discards and the trump-broken flag are cleared; the phase is bidding and the
  seat to act is the one after the dealer.
\<close>

lemma applyStartGame_effect:
  assumes "ApplyAction rnd s a = Ok s'" and "Type a = ActionStartGame" and "permShuffle rnd"
  shows "Phase s = PhaseLobby \<and> PlayerIndex a = House s \<and> AllPlayersSeated s"
    and "\<forall>i. inSeats i \<longrightarrow> (\<exists>p. Players s' i = Some p \<and> length (Hand p) = 6)"
    and "length (Kitty s') = 6"
    and "\<exists>d. Deck s' = Some d \<and> length d = 22"
    and "deckOf (Deck s') + handsOf (Players s') + mset (Kitty s') = mset NewDeck"
    and "Phase s' = PhaseBidding \<and> CurrentPlayer s' = NextPlayer (Dealer s)"
    and "Bids s' = [] \<and> Trump s' = None \<and> TricksPlayed s' = 0 \<and> CompletedTricks s' = []
         \<and> CardsWon s' = (\<lambda>_. []) \<and> LastTrick s' = None
         \<and> DiscardComplete s' = (\<lambda>_. False) \<and> PendingDiscards s' = (\<lambda>_. None)
         \<and> \<not> TrumpBroken s'"
proof -
  from assms(1,2) have ok: "applyStartGame rnd s a = Ok s'" by (simp add: ApplyAction_def)
  then show "Phase s = PhaseLobby \<and> PlayerIndex a = House s \<and> AllPlayersSeated s"
    by (auto simp: applyStartGame_def split: if_splits)
  from ok obtain x y where
    x: "dealHands [0, 1, 2, 3] (s\<lparr>Deck := Some (Shuffle rnd NewDeck)\<rparr>) = Some x"
    and y: "dealKitty x = Some y"
    and s': "s' = y\<lparr>Phase := PhaseBidding,
                            CurrentPlayer := PlayerAfterDealer y,
                            Bids := [],
                            Trump := None,
                            TricksPlayed := 0,
                            CompletedTricks := [],
                            CardsWon := (\<lambda>_. []),
                            LastTrick := None,
                            DiscardComplete := (\<lambda>_. False),
                            PendingDiscards := (\<lambda>_. None),
                            TrumpBroken := False\<rparr>"
    by (auto simp: applyStartGame_def split: if_splits option.splits)
  from assms(3) have "size (mset (Shuffle rnd NewDeck)) = size (mset NewDeck)"
    by (simp add: permShuffle_def)
  then have len: "length (Shuffle rnd NewDeck) = 52" by (simp add: length_NewDeck)
  from dealHands_six [OF x, of "Shuffle rnd NewDeck"] len
  obtain dx where hx: "\<forall>i \<in> set [0, 1, 2, 3]. \<exists>p. Players x i = Some p \<and> length (Hand p) = 6"
    and dx: "Deck x = Some dx" "length dx = 28"
    by auto
  from y dx have yy: "y = x\<lparr>Kitty := take 6 dx, Deck := Some (drop 6 dx)\<rparr>"
    by (simp add: dealKitty_def Deal_six)
  have seats: "inSeats i \<Longrightarrow> i \<in> set [0, 1, 2, 3]" for i :: int
    by (auto simp: inSeats_def)
  have py: "Players s' = Players x" by (simp add: s' yy)
  from hx seats show "\<forall>i. inSeats i \<longrightarrow> (\<exists>p. Players s' i = Some p \<and> length (Hand p) = 6)"
    unfolding py by blast
  from dx show "length (Kitty s') = 6" by (simp add: s' yy)
  from dx show "\<exists>d. Deck s' = Some d \<and> length d = 22" by (simp add: s' yy)
  from dealt_cards [OF x y] assms(3)
  show "deckOf (Deck s') + handsOf (Players s') + mset (Kitty s') = mset NewDeck"
    by (simp add: s' permShuffle_def)
  from dealHands_fields [OF x] dealKitty_fields [OF y]
  show "Phase s' = PhaseBidding \<and> CurrentPlayer s' = NextPlayer (Dealer s)"
    by (simp add: s' PlayerAfterDealer_def)
  show "Bids s' = [] \<and> Trump s' = None \<and> TricksPlayed s' = 0 \<and> CompletedTricks s' = []
         \<and> CardsWon s' = (\<lambda>_. []) \<and> LastTrick s' = None
         \<and> DiscardComplete s' = (\<lambda>_. False) \<and> PendingDiscards s' = (\<lambda>_. None)
         \<and> \<not> TrumpBroken s'"
    by (simp add: s')
qed

end
